theory Spec2Isabelle
  imports Complex_Main
begin

section \<open>The PayPal fee handler (assets/paypal-fee-handler.js)\<close>

text \<open>
  The script keeps one surcharge line in a shop cart in step with a checkbox and with the
  cart's subtotal. This theory embeds its functions: the fee computation, the cart
  helpers, the three cart-store calls, the reconciliation \<open>updateFee\<close>, the checkbox
  handlers, the debounce timer and the removal dialog. Amounts are integers of the minor
  currency unit (cents); JavaScript numbers are IEEE-754 binary64 values, and the one
  place where a non-integer occurs (the fee rate) is written out with its rounding.
\<close>

subsection \<open>Numbers: the product with the fee rate\<close>

text \<open>
  \<open>bitlen n\<close> is the number of binary digits of \<open>n\<close>; \<open>round_half_even n d\<close> is
  the integer nearest to \<open>n / d\<close>, a tie going to the even one: the rounding of every
  binary64 operation and of a decimal literal.
\<close>

fun bitlen :: "int \<Rightarrow> nat" where
  "bitlen n = (if n \<le> 0 then 0 else Suc (bitlen (n div 2)))"

declare bitlen.simps [simp del]

definition round_half_even :: "int \<Rightarrow> int \<Rightarrow> int" where
  "round_half_even n d =
     (let q = n div d; r = n mod d
      in if 2 * r < d then q
         else if d < 2 * r then q + 1
         else if even q then q else q + 1)"

text \<open>
  A binary64 value has 53 significant bits. All values below are written as numerators
  over the fixed denominator \<open>2 ^ 57\<close>; \<open>round53\<close> rounds such a numerator to 53
  significant bits. (The exponent range of binary64 is never left: the values lie between
  \<open>2 ^ -5\<close> and \<open>2 ^ 53\<close>.)
\<close>

definition round53 :: "int \<Rightarrow> int" where
  "round53 n = (let sh = bitlen n - 53 in round_half_even n (2 ^ sh) * 2 ^ sh)"

text \<open>
  \<open>FEE_PERCENTAGE: 0.035\<close>. The literal denotes the binary64 value nearest to
  \<open>35 / 1000\<close>; its numerator over \<open>2 ^ 57\<close> has exactly 53 bits.
\<close>

definition FEE_PERCENTAGE :: int where
  "FEE_PERCENTAGE = round_half_even (35 * 2 ^ 57) 1000"

text \<open>\<open>Math.ceil\<close> of the value \<open>n / 2 ^ 57\<close>.\<close>

definition Math_ceil :: "int \<Rightarrow> int" where
  "Math_ceil n = - ((- n) div 2 ^ 57)"

text \<open>
  \<open>calculateFee: function(subtotalCents) { return Math.ceil(subtotalCents * CONFIG.FEE_PERCENTAGE); }\<close>
  The argument is an integer number of cents (below \<open>2 ^ 53\<close>, so that it is a binary64
  value itself); the product is rounded to binary64 before \<open>Math.ceil\<close> sees it.
\<close>

definition calculateFee :: "nat \<Rightarrow> nat" where
  "calculateFee subtotalCents =
     nat (Math_ceil (round53 (int subtotalCents * FEE_PERCENTAGE)))"

text \<open>
  What the specification says the function computes: the ceiling of the subtotal times
  3.5 percent, in exact arithmetic.
\<close>

definition spec_calculateFee :: "nat \<Rightarrow> nat" where
  "spec_calculateFee s = nat \<lceil>rat_of_nat s * (35 / 1000)\<rceil>"

subsection \<open>Configuration\<close>

definition PAYPAL_FEE_SKU :: string where
  "PAYPAL_FEE_SKU = ''PAYPAL-FEE-3-5''"

definition PAYPAL_FEE_VARIANT_ID :: nat where
  "PAYPAL_FEE_VARIANT_ID = 52038356861271"

definition SESSION_KEY_ADDED :: string where
  "SESSION_KEY_ADDED = ''paypal_fee_selected''"

definition SESSION_KEY_DECLINED :: string where
  "SESSION_KEY_DECLINED = ''paypal_fee_declined''"

subsection \<open>The cart\<close>

text \<open>
  A line of the cart as the store holds it: its key, the SKU that marks the fee line, its
  quantity and its unit price. The field \<open>final_line_price\<close> of the cart document is the
  extended price of the line.
\<close>

record line_item =
  key :: string
  sku :: string
  quantity :: nat
  price :: nat

definition final_line_price :: "line_item \<Rightarrow> nat" where
  "final_line_price item = price item * quantity item"

type_synonym cart = "line_item list"

definition is_fee :: "line_item \<Rightarrow> bool" where
  "is_fee item = (sku item = PAYPAL_FEE_SKU)"

text \<open>\<open>getSubtotalWithoutFee\<close>, \<open>getAdjustedItemCount\<close>: the two \<open>forEach\<close> loops.\<close>

definition getSubtotalWithoutFee :: "cart \<Rightarrow> nat" where
  "getSubtotalWithoutFee items =
     foldl (\<lambda>subtotal item. if sku item \<noteq> PAYPAL_FEE_SKU then subtotal + final_line_price item
                             else subtotal) 0 items"

definition getAdjustedItemCount :: "cart \<Rightarrow> nat" where
  "getAdjustedItemCount items =
     foldl (\<lambda>count item. if sku item \<noteq> PAYPAL_FEE_SKU then count + quantity item else count)
       0 items"

text \<open>\<open>findFeeLineItem\<close>: \<open>cart.items.find(item => item.sku === CONFIG.PAYPAL_FEE_SKU)\<close>.\<close>

definition findFeeLineItem :: "cart \<Rightarrow> line_item option" where
  "findFeeLineItem items = find (\<lambda>item. sku item = PAYPAL_FEE_SKU) items"

text \<open>
  \<open>cart.items.indexOf(feeLineItem) + 1\<close> for the item \<open>findFeeLineItem\<close> returned: the
  1-based position of the first fee line.
\<close>

definition feeLineIndex :: "cart \<Rightarrow> nat" where
  "feeLineIndex items = length (takeWhile (\<lambda>item. sku item \<noteq> PAYPAL_FEE_SKU) items) + 1"

subsection \<open>The cart store\<close>

datatype request =
    GetCart
  | PostAdd nat
  | PostAddForm line_item
  | PostChangeLine nat nat
  | PostChangeKey string nat
  | GetSection

definition is_mutation :: "request \<Rightarrow> bool" where
  "is_mutation r = (case r of GetCart \<Rightarrow> False | GetSection \<Rightarrow> False | _ \<Rightarrow> True)"

text \<open>
  Modelled from the spec: the remote cart store is not part of the script. Its three
  mutations are taken from the interface the specification lists: adding a line item
  (the fee variant arrives as a new line whose quantity is the amount in cents and whose
  unit price is one cent), changing a line's quantity by its 1-based position or by its
  key, where quantity 0 deletes the line (the script's own \<open>removeFee\<close> relies on that).
\<close>

definition fresh_key :: "cart \<Rightarrow> string" where
  "fresh_key items = concat (map key items) @ ''+fee''"

definition store_apply :: "request \<Rightarrow> cart \<Rightarrow> cart" where
  "store_apply r items =
     (case r of
        GetCart \<Rightarrow> items
      | GetSection \<Rightarrow> items
      | PostAdd q \<Rightarrow>
          (if q = 0 then items
           else items @ [\<lparr>key = fresh_key items, sku = PAYPAL_FEE_SKU, quantity = q, price = 1\<rparr>])
      | PostAddForm item \<Rightarrow> items @ [item]
      | PostChangeLine line q \<Rightarrow>
          (if line = 0 \<or> length items < line then items
           else if q = 0 then take (line - 1) items @ drop line items
           else items[line - 1 := (items ! (line - 1))\<lparr>quantity := q\<rparr>])
      | PostChangeKey k q \<Rightarrow>
          (if q = 0 then filter (\<lambda>item. key item \<noteq> k) items
           else map (\<lambda>item. if key item = k then item\<lparr>quantity := q\<rparr> else item) items))"

subsection \<open>The page: storage, document, network\<close>

text \<open>
  How a request other than the cart read is answered: with a 2xx status and a body that
  parses (\<open>Ok\<close>), with a 2xx status and a body that does not (\<open>Unparsable\<close>), not at all
  (\<open>Rejected\<close>: \<open>fetch\<close> rejects), or with an error status, whose body may be JSON and
  then may mention \<open>out of stock\<close> in its description.
\<close>

datatype errbody = NotJson | ErrorJson bool

datatype outcome = Ok | Unparsable | Rejected | HttpError errbody

datatype cbid = CbMain | CbDrawer | CbProduct | CbPlain

record checkbox =
  checked :: bool
  disabled :: bool

datatype alert = VariantMissing | OutOfStock | UpdateFailed

datatype dom_event = PaypalFeeChanged | CartUpdated

text \<open>
  The state the script works on. \<open>store\<close> is the remote cart. \<open>reads\<close> scripts the
  coming reads of \<open>/cart.js\<close> (\<open>True\<close>: the cart document arrives; \<open>False\<close>: the request
  is rejected or its body does not parse) and \<open>net\<close> the answers to the coming other
  requests; an exhausted script means success. \<open>requests\<close> is the log of the requests
  issued, oldest first. \<open>session\<close> is \<open>sessionStorage\<close>. \<open>boxes\<close> holds the checkboxes
  of the document by element id (\<open>paypal-fee-checkbox-main\<close>, \<open>-drawer\<close>, \<open>-product\<close>,
  and plain \<open>paypal-fee-checkbox\<close>), \<open>None\<close> for an element the page does not have.
  \<open>cart_section\<close> says whether the page has a \<open>section[data-section-type="cart"]\<close>.
  \<open>modal\<close> is the removal dialog: \<open>None\<close> before it is created, else whether it has the
  class \<open>active\<close>. \<open>init_runs\<close> counts the runs of \<open>CheckboxHandler.init\<close>, each of which
  registers the quantity listeners once more; \<open>empty_checks\<close> counts the
  \<open>checkEmptyCart\<close> tasks it started without awaiting them.
\<close>

record world =
  store :: cart
  reads :: "bool list"
  net :: "outcome list"
  requests :: "request list"
  session :: "string \<rightharpoonup> string"
  boxes :: "cbid \<Rightarrow> checkbox option"
  cart_section :: bool
  loaders :: nat
  modal :: "bool option"
  scroll_locked :: bool
  alerts :: "alert list"
  dispatched :: "dom_event list"
  reloads :: nat
  init_runs :: nat
  empty_checks :: nat

definition setItem :: "string \<Rightarrow> string \<Rightarrow> world \<Rightarrow> world" where
  "setItem k v w = w\<lparr>session := (session w)(k \<mapsto> v)\<rparr>"

definition removeItem :: "string \<Rightarrow> world \<Rightarrow> world" where
  "removeItem k w = w\<lparr>session := (session w)(k := None)\<rparr>"

definition userWantsFee :: "world \<Rightarrow> bool" where
  "userWantsFee w = (session w SESSION_KEY_ADDED = Some ''true'')"

text \<open>
  \<open>if (el) el.checked = b\<close>, and the same for \<open>disabled\<close>: an element the page
  does not have stays absent.
\<close>

definition set_checked :: "cbid \<Rightarrow> bool \<Rightarrow> world \<Rightarrow> world" where
  "set_checked t b w =
     w\<lparr>boxes := (boxes w)(t := map_option (\<lambda>box. box\<lparr>checked := b\<rparr>) (boxes w t))\<rparr>"

definition set_disabled :: "cbid \<Rightarrow> bool \<Rightarrow> world \<Rightarrow> world" where
  "set_disabled t b w =
     w\<lparr>boxes := (boxes w)(t := map_option (\<lambda>box. box\<lparr>disabled := b\<rparr>) (boxes w t))\<rparr>"

definition showLoader :: "world \<Rightarrow> world" where
  "showLoader w = w\<lparr>loaders := loaders w + 1\<rparr>"

definition hideLoader :: "world \<Rightarrow> world" where
  "hideLoader w = w\<lparr>loaders := loaders w - 1\<rparr>"

definition alert :: "alert \<Rightarrow> world \<Rightarrow> world" where
  "alert a w = w\<lparr>alerts := alerts w @ [a]\<rparr>"

definition dispatchEvent :: "dom_event \<Rightarrow> world \<Rightarrow> world" where
  "dispatchEvent e w = w\<lparr>dispatched := dispatched w @ [e]\<rparr>"

definition reload :: "world \<Rightarrow> world" where
  "reload w = w\<lparr>reloads := reloads w + 1\<rparr>"

text \<open>
  A request other than the cart read: it is logged, the next answer is taken from the
  script, and the store applies it when the status is 2xx.
\<close>

definition next_answer :: "world \<Rightarrow> outcome" where
  "next_answer w = (case net w of [] \<Rightarrow> Ok | x # _ \<Rightarrow> x)"

definition fetch :: "request \<Rightarrow> world \<Rightarrow> outcome \<times> world" where
  "fetch r w =
     (let out = next_answer w;
          w1 = w\<lparr>requests := requests w @ [r], net := tl (net w)\<rparr>
      in (out, if out = Ok \<or> out = Unparsable then w1\<lparr>store := store_apply r (store w1)\<rparr>
               else w1))"

text \<open>
  \<open>getCart\<close>: \<open>fetch('/cart.js')\<close> then \<open>response.json()\<close>, inside \<open>try\<close>; any failure
  is caught and \<open>null\<close> returned. The status of the answer is not looked at: a body
  that parses is returned as the cart. The store is taken to answer this read either
  with the cart document or with something that does not parse.
\<close>

definition next_read :: "world \<Rightarrow> bool" where
  "next_read w = (case reads w of [] \<Rightarrow> True | b # _ \<Rightarrow> b)"

text \<open>Whether the read after the next one delivers the cart.\<close>

definition second_read :: "world \<Rightarrow> bool" where
  "second_read w = (case tl (reads w) of [] \<Rightarrow> True | b # _ \<Rightarrow> b)"

definition getCart :: "world \<Rightarrow> cart option \<times> world" where
  "getCart w =
     (let delivered = next_read w;
          w1 = w\<lparr>requests := requests w @ [GetCart], reads := tl (reads w)\<rparr>
      in (if delivered then Some (store w1) else None, w1))"

subsection \<open>CheckboxHandler.init and the fragment refresh\<close>

text \<open>
  \<open>CheckboxHandler.init\<close>: each of the three checkboxes the page has is set to the
  stored preference and replaced by a clone that carries the \<open>change\<close> listener; the
  document gets the quantity listeners once more; \<open>checkEmptyCart\<close> is started and not
  awaited, so its steps run after the caller's and are a task of their own
  (\<open>checkEmptyCart\<close> below).
\<close>

definition CheckboxHandler_init :: "world \<Rightarrow> world" where
  "CheckboxHandler_init w =
     (let shouldBeChecked = userWantsFee w;
          w1 = set_checked CbMain shouldBeChecked w;
          w2 = set_checked CbDrawer shouldBeChecked w1;
          w3 = set_checked CbProduct shouldBeChecked w2
      in w3\<lparr>init_runs := init_runs w3 + 1, empty_checks := empty_checks w3 + 1\<rparr>)"

text \<open>
  \<open>refreshCartUI\<close>: without a cart section the page reloads. Otherwise the section is
  fetched; an error status, a rejection, or a body without the section reloads the page;
  a body with the section replaces it and runs \<open>CheckboxHandler.init\<close>. (The markup of
  the fresh section comes from the store; the checkboxes are kept by their ids, and what
  \<open>CheckboxHandler.init\<close> sets is their \<open>checked\<close> state.)
\<close>

definition refreshCartUI :: "world \<Rightarrow> world" where
  "refreshCartUI w =
     (if \<not> cart_section w then reload w
      else case fetch GetSection w of
             (Ok, w1) \<Rightarrow> CheckboxHandler_init w1
           | (_, w1) \<Rightarrow> reload w1)"

subsection \<open>CartAPI\<close>

text \<open>
  \<open>addFee\<close>. The guard on the variant id comes first. \<open>Math.round(feeAmount)\<close> is the
  identity on an integer. Every failure inside \<open>try\<close> is caught and \<open>false\<close> returned:
  a rejection, an error status (with the out-of-stock alert when the body says so), a
  2xx body that does not parse.
\<close>

definition addFee :: "nat \<Rightarrow> world \<Rightarrow> bool \<times> world" where
  "addFee feeAmount w =
     (if PAYPAL_FEE_VARIANT_ID = 0 then (False, alert VariantMissing w)
      else case fetch (PostAdd feeAmount) w of
             (Ok, w1) \<Rightarrow> (True, refreshCartUI w1)
           | (HttpError (ErrorJson True), w1) \<Rightarrow> (False, alert OutOfStock w1)
           | (_, w1) \<Rightarrow> (False, w1))"

text \<open>
  \<open>removeFee\<close>: reads the cart; \<open>null\<close> gives \<open>false\<close>, no fee line gives \<open>true\<close>;
  otherwise the line at the fee's position is set to quantity 0. The body of the answer
  is not read.
\<close>

definition removeFee :: "world \<Rightarrow> bool \<times> world" where
  "removeFee w =
     (case getCart w of
        (None, w1) \<Rightarrow> (False, w1)
      | (Some cart, w1) \<Rightarrow>
          (case findFeeLineItem cart of
             None \<Rightarrow> (True, w1)
           | Some feeLineItem \<Rightarrow>
               (case fetch (PostChangeLine (feeLineIndex cart) 0) w1 of
                  (Ok, w2) \<Rightarrow> (True, w2)
                | (Unparsable, w2) \<Rightarrow> (True, w2)
                | (_, w2) \<Rightarrow> (False, w2))))"

definition setFeeQuantity :: "string \<Rightarrow> nat \<Rightarrow> world \<Rightarrow> bool \<times> world" where
  "setFeeQuantity lineItemKey quantityInCents w =
     (case fetch (PostChangeKey lineItemKey quantityInCents) w of
        (Ok, w1) \<Rightarrow> (True, refreshCartUI w1)
      | (_, w1) \<Rightarrow> (False, w1))"

text \<open>
  \<open>updateFee\<close>, statement by statement. The results of \<open>removeFee\<close>,
  \<open>setFeeQuantity\<close> and \<open>addFee\<close> are awaited and dropped.
\<close>

definition updateFee :: "world \<Rightarrow> bool \<times> world" where
  "updateFee w =
     (case getCart w of
        (None, w1) \<Rightarrow> (False, w1)
      | (Some cart, w1) \<Rightarrow>
          (let subtotal = getSubtotalWithoutFee cart in
           if subtotal = 0 then (False, snd (removeFee w1))
           else
             let feeAmount = calculateFee subtotal;
                 desiredQuantity = feeAmount;
                 existingFee = findFeeLineItem cart
             in case existingFee of
                  Some fee \<Rightarrow>
                    (if quantity fee = desiredQuantity then (True, w1)
                     else (True, snd (setFeeQuantity (key fee) desiredQuantity w1)))
                | None \<Rightarrow> (True, snd (addFee feeAmount w1))))"

subsection \<open>CheckboxHandler\<close>

text \<open>
  The body of the debounce timer's callback, which is also what the \<open>cart:updated\<close>
  listener awaits: read the cart, and when it has a fee line or the user wants the fee,
  \<open>updateFee\<close> and \<open>refreshCartUI\<close>. This is one run from its first statement to its
  last, with nothing else running at its \<open>await\<close>s; runs that overlap are written out
  below (\<open>two_listeners\<close>, \<open>two_alignments\<close>).
\<close>

definition recalcTask :: "world \<Rightarrow> world" where
  "recalcTask w =
     (case getCart w of
        (None, w1) \<Rightarrow> w1
      | (Some cart, w1) \<Rightarrow>
          (let hasFee = (findFeeLineItem cart \<noteq> None);
               wants = userWantsFee w1
           in if hasFee \<or> wants then refreshCartUI (snd (updateFee w1)) else w1))"

text \<open>
  The \<open>cart:updated\<close> listener starts \<open>checkEmptyCart\<close> without awaiting it and goes on
  with the same steps as the timer's callback. This is one listener run on its own; the
  page registers the listener twice, see \<open>two_listeners\<close>.
\<close>

definition cartUpdatedListener :: "world \<Rightarrow> world" where
  "cartUpdatedListener w = recalcTask (w\<lparr>empty_checks := empty_checks w + 1\<rparr>)"

text \<open>
  The anonymous async function at the end of \<open>init\<close>: the same without the refresh.
  This is one alignment run on its own; the script starts two, see \<open>two_alignments\<close>.
\<close>

definition initAlign :: "world \<Rightarrow> world" where
  "initAlign w =
     (case getCart w of
        (None, w1) \<Rightarrow> w1
      | (Some cart, w1) \<Rightarrow>
          (let hasFee = (findFeeLineItem cart \<noteq> None);
               userSelected = userWantsFee w1
           in if hasFee \<or> userSelected then snd (updateFee w1) else w1))"

definition checkEmptyCart :: "world \<Rightarrow> world" where
  "checkEmptyCart w =
     (case getCart w of
        (None, w1) \<Rightarrow> w1
      | (Some cart, w1) \<Rightarrow>
          (let subtotal = getSubtotalWithoutFee cart in
           if subtotal = 0 then
             (let w2 = snd (removeFee w1);
                  w3 = set_checked CbMain False w2;
                  w4 = set_checked CbDrawer False w3
              in removeItem SESSION_KEY_ADDED w4)
           else w1))"

text \<open>
  Overlapping runs. An async function gives way at every \<open>await\<close>, and \<open>init\<close> is
  called twice when the script loads (once on its own and once from \<open>initializeAll\<close>):
  two \<open>cart:updated\<close> listeners are registered and two alignments are started. To
  write an overlap down, \<open>updateFee\<close> is cut at its first \<open>await\<close>:
  \<open>updateFee_after\<close> is \<open>updateFee\<close> from the statement after
  \<open>const cart = await Utils.getCart()\<close>, for what that read returned, and
  \<open>fee_or_wanted\<close> is the test between a pipeline's own read and its call of
  \<open>updateFee\<close> (\<open>if (!cart) return\<close>, then \<open>if (hasFee || userWantsFee)\<close>).
\<close>

definition updateFee_after :: "cart option \<Rightarrow> world \<Rightarrow> bool \<times> world" where
  "updateFee_after snapshot w1 =
     (case snapshot of
        None \<Rightarrow> (False, w1)
      | Some cart \<Rightarrow>
          (let subtotal = getSubtotalWithoutFee cart in
           if subtotal = 0 then (False, snd (removeFee w1))
           else
             let feeAmount = calculateFee subtotal;
                 desiredQuantity = feeAmount;
                 existingFee = findFeeLineItem cart
             in case existingFee of
                  Some fee \<Rightarrow>
                    (if quantity fee = desiredQuantity then (True, w1)
                     else (True, snd (setFeeQuantity (key fee) desiredQuantity w1)))
                | None \<Rightarrow> (True, snd (addFee feeAmount w1))))"

definition fee_or_wanted :: "cart option \<Rightarrow> world \<Rightarrow> bool" where
  "fee_or_wanted snapshot w =
     (case snapshot of
        None \<Rightarrow> False
      | Some cart \<Rightarrow> findFeeLineItem cart \<noteq> None \<or> userWantsFee w)"

text \<open>
  Two alignments, in an order the event loop can take: both read the cart; both, past
  the test, read it again inside \<open>updateFee\<close>; only then the first decides and writes,
  and after it the second, on the cart it read before the first wrote.
\<close>

definition two_alignments :: "world \<Rightarrow> world" where
  "two_alignments w =
     (let (a1, w1) = getCart w;
          (b1, w2) = getCart w1;
          (a2, w3) = (if fee_or_wanted a1 w2 then getCart w2 else (None, w2));
          (b2, w4) = (if fee_or_wanted b1 w3 then getCart w3 else (None, w3));
          w5 = (if fee_or_wanted a1 w2 then snd (updateFee_after a2 w4) else w4)
      in if fee_or_wanted b1 w3 then snd (updateFee_after b2 w5) else w5)"

text \<open>
  The two listeners of one \<open>cart:updated\<close> event, in the same order: each starts its
  \<open>checkEmptyCart\<close> and its read; both read again inside \<open>updateFee\<close>; then the first
  decides, writes and refreshes, and after it the second.
\<close>

definition two_listeners :: "world \<Rightarrow> world" where
  "two_listeners w =
     (let (a1, w1) = getCart (w\<lparr>empty_checks := empty_checks w + 1\<rparr>);
          (b1, w2) = getCart (w1\<lparr>empty_checks := empty_checks w1 + 1\<rparr>);
          (a2, w3) = (if fee_or_wanted a1 w2 then getCart w2 else (None, w2));
          (b2, w4) = (if fee_or_wanted b1 w3 then getCart w3 else (None, w3));
          w5 = (if fee_or_wanted a1 w2 then refreshCartUI (snd (updateFee_after a2 w4)) else w4)
      in if fee_or_wanted b1 w3 then refreshCartUI (snd (updateFee_after b2 w5)) else w5)"

text \<open>
  \<open>handleCheckboxChange\<close> for the checkbox \<open>t\<close> (the event's target; the browser has
  already flipped it). The \<open>catch\<close> block is \<open>revertCheckbox\<close>. Inside \<open>try\<close>, only
  \<open>getSubtotalWithoutFee(cart)\<close> can throw, on the \<open>null\<close> of a failed read:
  \<open>addFee\<close> and \<open>removeFee\<close> catch their own failures and return \<open>false\<close>, which the
  handler does not look at.
\<close>

definition revertCheckbox :: "cbid \<Rightarrow> bool \<Rightarrow> world \<Rightarrow> world" where
  "revertCheckbox t isChecked w =
     (let w1 = hideLoader w;
          w2 = alert UpdateFailed w1;
          w3 = set_checked t (\<not> isChecked) w2;
          w4 = set_disabled t False w3
      in if isChecked then removeItem SESSION_KEY_ADDED w4
         else setItem SESSION_KEY_ADDED ''true'' w4)"

definition handleCheckboxChange :: "cbid \<Rightarrow> world \<Rightarrow> world" where
  "handleCheckboxChange t w =
     (case boxes w t of
        None \<Rightarrow> w
      | Some box \<Rightarrow>
          (let isChecked = checked box;
               w1 = set_disabled t True w;
               w2 = showLoader w1;
               w3 = (if isChecked
                     then removeItem SESSION_KEY_DECLINED (setItem SESSION_KEY_ADDED ''true'' w2)
                     else removeItem SESSION_KEY_ADDED w2);
               w4 = dispatchEvent PaypalFeeChanged w3
           in if isChecked then
                (case getCart w4 of
                   (None, w5) \<Rightarrow> revertCheckbox t isChecked w5
                 | (Some cart, w5) \<Rightarrow>
                     (let subtotal = getSubtotalWithoutFee cart;
                          feeAmount = calculateFee subtotal
                      in reload (snd (addFee feeAmount w5))))
              else reload (snd (removeFee w4))))"

definition handleProductCheckboxChange :: "world \<Rightarrow> world" where
  "handleProductCheckboxChange w =
     (case boxes w CbProduct of
        None \<Rightarrow> w
      | Some box \<Rightarrow>
          (let isChecked = checked box;
               w1 = (if isChecked
                     then removeItem SESSION_KEY_DECLINED (setItem SESSION_KEY_ADDED ''true'' w)
                     else removeItem SESSION_KEY_ADDED w);
               w2 = set_checked CbMain isChecked w1
           in set_checked CbDrawer isChecked w2))"

definition syncCheckboxState :: "cbid \<Rightarrow> world \<Rightarrow> world" where
  "syncCheckboxState t w =
     (case getCart w of
        (None, w1) \<Rightarrow> w1
      | (Some cart, w1) \<Rightarrow>
          (let hasFee = (findFeeLineItem cart \<noteq> None);
               w2 = set_checked t hasFee w1
           in if hasFee then setItem SESSION_KEY_ADDED ''true'' w2 else w2))"

definition syncCheckboxFromStorage :: "world \<Rightarrow> world" where
  "syncCheckboxFromStorage w =
     (if userWantsFee w then set_checked CbDrawer True (set_checked CbMain True w) else w)"

subsection \<open>AddToCartNoRedirect.ajaxAdd\<close>

text \<open>
  The form's product is posted; \<open>r.json()\<close> is taken whatever the status. When that
  succeeds and the user wants the fee, the cart is read and the fee added; a failed read
  throws at \<open>getSubtotalWithoutFee(null)\<close> and is caught and logged. Then \<open>cart:updated\<close>
  is dispatched.
\<close>

definition ajaxAdd :: "line_item \<Rightarrow> world \<Rightarrow> world" where
  "ajaxAdd product w =
     (case fetch (PostAddForm product) w of
        (Unparsable, w1) \<Rightarrow> w1
      | (Rejected, w1) \<Rightarrow> w1
      | (HttpError NotJson, w1) \<Rightarrow> w1
      | (_, w1) \<Rightarrow>
          (let w2 =
             (if userWantsFee w1 then
                (case getCart w1 of
                   (None, w') \<Rightarrow> w'
                 | (Some cart, w') \<Rightarrow>
                     snd (addFee (calculateFee (getSubtotalWithoutFee cart)) w'))
              else w1)
           in dispatchEvent CartUpdated w2))"

subsection \<open>RemoveFeeHandler\<close>

definition createModal :: "world \<Rightarrow> world" where
  "createModal w = w\<lparr>modal := Some False\<rparr>"

definition showConfirmModal :: "world \<Rightarrow> world" where
  "showConfirmModal w =
     (case modal w of None \<Rightarrow> w
      | Some _ \<Rightarrow> w\<lparr>modal := Some True, scroll_locked := True\<rparr>)"

definition closeConfirmModal :: "world \<Rightarrow> world" where
  "closeConfirmModal w =
     (case modal w of None \<Rightarrow> w
      | Some _ \<Rightarrow> w\<lparr>modal := Some False, scroll_locked := False\<rparr>)"

text \<open>A click on an element with \<open>data-paypal-fee-remove\<close>.\<close>

definition handleRemoveClick :: "world \<Rightarrow> world" where
  "handleRemoveClick w = showConfirmModal w"

text \<open>
  The three ways to cancel: the cancel button; a click whose target is the overlay
  itself; the Escape key while the dialog is active. The listeners exist once the dialog
  has been created.
\<close>

definition cancelClick :: "world \<Rightarrow> world" where
  "cancelClick w = (case modal w of None \<Rightarrow> w | Some _ \<Rightarrow> closeConfirmModal w)"

definition overlayClick :: "world \<Rightarrow> world" where
  "overlayClick w = (case modal w of None \<Rightarrow> w | Some _ \<Rightarrow> closeConfirmModal w)"

definition escapeKey :: "world \<Rightarrow> world" where
  "escapeKey w = (if modal w = Some True then closeConfirmModal w else w)"

text \<open>
  \<open>confirmRemoval\<close>. The selector it unchecks is
  \<open>#paypal-fee-checkbox, #paypal-fee-checkbox-drawer\<close>.
\<close>

definition confirmRemoval :: "world \<Rightarrow> world" where
  "confirmRemoval w =
     (let w1 = closeConfirmModal w;
          w2 = snd (removeFee w1);
          w3 = set_checked CbDrawer False (set_checked CbPlain False w2);
          w4 = removeItem SESSION_KEY_ADDED w3
      in refreshCartUI w4)"

subsection \<open>The debounce timer\<close>

text \<open>
  The page adds a clock (milliseconds) and the table of pending timeouts to the world:
  \<open>timers\<close> holds the handle and the due time of each pending timeout, in the order they
  were set; \<open>recalcTimer\<close> is \<open>this._recalcTimer\<close>, undefined at first; \<open>passes\<close> lists
  the clock readings at which the timer's callback started.
\<close>

record page =
  env :: world
  clock :: nat
  timers :: "(nat \<times> nat) list"
  next_timer :: nat
  recalcTimer :: "nat option"
  passes :: "nat list"

definition clearTimeout :: "nat option \<Rightarrow> page \<Rightarrow> page" where
  "clearTimeout h p =
     (case h of None \<Rightarrow> p
      | Some i \<Rightarrow> p\<lparr>timers := filter (\<lambda>tm. fst tm \<noteq> i) (timers p)\<rparr>)"

definition setTimeout :: "nat \<Rightarrow> page \<Rightarrow> nat \<times> page" where
  "setTimeout delay p =
     (next_timer p,
      p\<lparr>timers := timers p @ [(next_timer p, clock p + delay)],
        next_timer := next_timer p + 1\<rparr>)"

text \<open>
  \<open>scheduleRecalc\<close>: \<open>window.clearTimeout(this._recalcTimer)\<close>, then
  \<open>this._recalcTimer = window.setTimeout(..., 600)\<close>.
\<close>

definition scheduleRecalc :: "page \<Rightarrow> page" where
  "scheduleRecalc p =
     (let p1 = clearTimeout (recalcTimer p) p;
          (i, p2) = setTimeout 600 p1
      in p2\<lparr>recalcTimer := Some i\<rparr>)"

text \<open>
  A timeout that is due fires: it leaves the table and its callback runs
  (\<open>recalcTask\<close>). Time passing to \<open>t\<close> fires the timeouts due by then, oldest first.
\<close>

definition fire :: "nat \<times> nat \<Rightarrow> page \<Rightarrow> page" where
  "fire tm p =
     p\<lparr>timers := remove1 tm (timers p),
       clock := max (clock p) (snd tm),
       passes := passes p @ [max (clock p) (snd tm)],
       env := recalcTask (env p)\<rparr>"

definition advance :: "nat \<Rightarrow> page \<Rightarrow> page" where
  "advance t p =
     (let due = filter (\<lambda>tm. snd tm \<le> t) (timers p);
          p1 = foldl (\<lambda>q tm. fire tm q) p due
      in p1\<lparr>clock := max (clock p1) t\<rparr>)"

text \<open>
  The pending timeout, if any, is the one \<open>this._recalcTimer\<close> names, and there is no
  other.
\<close>

definition pending_is_tracked :: "page \<Rightarrow> bool" where
  "pending_is_tracked p =
     (case timers p of
        [] \<Rightarrow> True
      | [tm] \<Rightarrow> recalcTimer p = Some (fst tm)
      | _ \<Rightarrow> False)"

text \<open>
  A click on a quantity control, or a \<open>change\<close> or \<open>input\<close> event of a quantity field,
  at time \<open>t\<close>: every registration of the listener (one per run of
  \<open>CheckboxHandler.init\<close>) calls \<open>scheduleRecalc\<close>.
\<close>

definition quantityEvent :: "nat \<Rightarrow> page \<Rightarrow> page" where
  "quantityEvent t p =
     (let p1 = advance t p in (scheduleRecalc ^^ init_runs (env p1)) p1)"

definition burst :: "nat list \<Rightarrow> page \<Rightarrow> page" where
  "burst ts p = foldl (\<lambda>q t. quantityEvent t q) p ts"

text \<open>
  \<open>in_window t ts\<close>: the events at the times \<open>ts\<close> follow an event at time \<open>t\<close>, each
  less than 600 ms after the one before.
\<close>

fun in_window :: "nat \<Rightarrow> nat list \<Rightarrow> bool" where
  "in_window t [] = True"
| "in_window t (u # us) = (t \<le> u \<and> u < t + 600 \<and> in_window u us)"

subsection \<open>Events\<close>

text \<open>
  What can happen on the page, one event at a time: the script's start-up steps, the
  listeners it registers, the timer, and the calls of the exported \<open>cartAPI\<close>. A task
  the script starts without awaiting it (\<open>checkEmptyCart\<close>) and the listener of an
  event it dispatches itself (\<open>cart:updated\<close>) run as events of their own.
\<close>

datatype event =
    SyncStorage
  | InitCheckboxes
  | Align
  | ModalCreated
  | EmptyCheck
  | CartUpdatedEvent
  | Toggle cbid
  | SyncState cbid
  | Quantity nat
  | Tick nat
  | RemoveClick
  | CancelClick
  | OverlayClick
  | EscapeKey
  | ConfirmClick
  | AddToCart line_item
  | ApiAddFee nat
  | ApiRemoveFee
  | ApiUpdateFee
  | ApiRefresh

text \<open>
  The user flips a checkbox that is not disabled, and its \<open>change\<close> listener runs: the
  main and drawer checkboxes carry \<open>handleCheckboxChange\<close>, the product checkbox
  \<open>handleProductCheckboxChange\<close>.
\<close>

definition userToggle :: "cbid \<Rightarrow> world \<Rightarrow> world" where
  "userToggle t w =
     (case boxes w t of
        None \<Rightarrow> w
      | Some box \<Rightarrow>
          (if disabled box then w
           else
             (let w1 = w\<lparr>boxes := (boxes w)(t := Some (box\<lparr>checked := \<not> checked box\<rparr>))\<rparr>
              in (case t of
                    CbMain \<Rightarrow> handleCheckboxChange t w1
                  | CbDrawer \<Rightarrow> handleCheckboxChange t w1
                  | CbProduct \<Rightarrow> handleProductCheckboxChange w1
                  | CbPlain \<Rightarrow> w1))))"

definition on_env :: "(world \<Rightarrow> world) \<Rightarrow> page \<Rightarrow> page" where
  "on_env f p = p\<lparr>env := f (env p)\<rparr>"

fun step :: "event \<Rightarrow> page \<Rightarrow> page" where
  "step SyncStorage p = on_env syncCheckboxFromStorage p"
| "step InitCheckboxes p = on_env CheckboxHandler_init p"
| "step Align p = on_env initAlign p"
| "step ModalCreated p = on_env createModal p"
| "step EmptyCheck p = on_env checkEmptyCart p"
| "step CartUpdatedEvent p = on_env cartUpdatedListener p"
| "step (Toggle t) p = on_env (userToggle t) p"
| "step (SyncState t) p = on_env (syncCheckboxState t) p"
| "step (Quantity t) p = quantityEvent t p"
| "step (Tick t) p = advance t p"
| "step RemoveClick p = on_env handleRemoveClick p"
| "step CancelClick p = on_env cancelClick p"
| "step OverlayClick p = on_env overlayClick p"
| "step EscapeKey p = on_env escapeKey p"
| "step ConfirmClick p = on_env confirmRemoval p"
| "step (AddToCart product) p = on_env (ajaxAdd product) p"
| "step (ApiAddFee n) p = on_env (\<lambda>w. snd (addFee n w)) p"
| "step ApiRemoveFee p = on_env (\<lambda>w. snd (removeFee w)) p"
| "step ApiUpdateFee p = on_env (\<lambda>w. snd (updateFee w)) p"
| "step ApiRefresh p = on_env refreshCartUI p"

definition run :: "event list \<Rightarrow> page \<Rightarrow> page" where
  "run es p = foldl (\<lambda>q e. step e q) p es"

subsection \<open>Observations and example states\<close>

text \<open>
  The requests a run issued, from the logs before and after it, and the mutations among
  them; the number of fee lines of a cart.
\<close>

definition issued :: "world \<Rightarrow> world \<Rightarrow> request list" where
  "issued w w' = drop (length (requests w)) (requests w')"

definition writes :: "world \<Rightarrow> world \<Rightarrow> request list" where
  "writes w w' = filter is_mutation (issued w w')"

definition fee_count :: "cart \<Rightarrow> nat" where
  "fee_count items = length (filter is_fee items)"

text \<open>
  A page that has just been loaded on the cart page, with nothing in the cart and
  nothing stored: the examples below are variations of it.
\<close>

definition world0 :: world where
  "world0 =
     \<lparr>store = [], reads = [], net = [], requests = [], session = Map.empty,
      boxes = (\<lambda>t. if t = CbMain then Some \<lparr>checked = False, disabled = False\<rparr> else None),
      cart_section = True, loaders = 0, modal = Some False, scroll_locked = False,
      alerts = [], dispatched = [], reloads = 0, init_runs = 2, empty_checks = 0\<rparr>"

definition page0 :: page where
  "page0 =
     \<lparr>env = world0, clock = 0, timers = [], next_timer = 0, recalcTimer = None, passes = []\<rparr>"

definition shirt :: line_item where
  "shirt = \<lparr>key = ''shirt:1'', sku = ''SHIRT'', quantity = 1, price = 1000\<rparr>"

definition fee_line :: "nat \<Rightarrow> line_item" where
  "fee_line q = \<lparr>key = ''fee:1'', sku = PAYPAL_FEE_SKU, quantity = q, price = 1\<rparr>"


text \<open>The user wants the fee, the box is checked, and only the fee line is left in the cart.\<close>

definition cart_only_fee :: world where
  "cart_only_fee =
     world0\<lparr>store := [fee_line 35], session := [SESSION_KEY_ADDED \<mapsto> ''true''],
            boxes := (\<lambda>t. if t = CbMain then Some \<lparr>checked = True, disabled = False\<rparr> else None)\<rparr>"

text \<open>
  The cart is in step with its subtotal: no fee line on a subtotal of 0, else a first fee
  line whose quantity is the fee of the subtotal.
\<close>

definition converged :: "cart \<Rightarrow> bool" where
  "converged items =
     (case findFeeLineItem items of
        None \<Rightarrow> getSubtotalWithoutFee items = 0
      | Some f \<Rightarrow> getSubtotalWithoutFee items \<noteq> 0 \<and>
                  quantity f = calculateFee (getSubtotalWithoutFee items))"

text \<open>
  A run that did nothing but one read of the cart: store, stored preference and
  checkboxes are as before.
\<close>

definition only_read :: "world \<Rightarrow> world \<Rightarrow> bool" where
  "only_read w w' =
     (store w' = store w \<and> session w' = session w \<and> boxes w' = boxes w \<and>
      issued w w' = [GetCart])"

text \<open>
  No preference stored, the box unchecked, and a cart of one shirt with a fee line whose
  quantity is not the fee of the subtotal.
\<close>

definition fee_out_of_step :: world where
  "fee_out_of_step = world0\<lparr>store := [shirt, fee_line 10]\<rparr>"

text \<open>The same cart, the user wants the fee, and the next read of the cart fails.\<close>

definition cart_unreachable :: world where
  "cart_unreachable =
     world0\<lparr>store := [shirt, fee_line 10], reads := [False],
            session := [SESSION_KEY_ADDED \<mapsto> ''true'']\<rparr>"

text \<open>
  One shirt in the cart, the main checkbox unchecked, and a store that refuses the next
  mutation with an error status whose body says \<open>out of stock\<close>.
\<close>

definition add_refused :: world where
  "add_refused = world0\<lparr>store := [shirt], net := [HttpError (ErrorJson True)]\<rparr>"

text \<open>The cart of one shirt with the fee line in step.\<close>

definition in_step :: world where
  "in_step = world0\<lparr>store := [shirt, fee_line 35]\<rparr>"

text \<open>Only the fee line is left, and the second read of the cart fails.\<close>

definition second_read_fails :: world where
  "second_read_fails = cart_only_fee\<lparr>reads := [True, False]\<rparr>"

text \<open>A checkbox is not checked (also when the page does not have it).\<close>

definition not_checked :: "cbid \<Rightarrow> world \<Rightarrow> bool" where
  "not_checked t w = (case boxes w t of None \<Rightarrow> True | Some box \<Rightarrow> \<not> checked box)"

text \<open>
  A step that left the cart, the stored preference and the checkboxes alone, issued no
  request, and left the dialog closed.
\<close>

definition closed_without_effect :: "world \<Rightarrow> world \<Rightarrow> bool" where
  "closed_without_effect w w' =
     (store w' = store w \<and> session w' = session w \<and> boxes w' = boxes w \<and>
      requests w' = requests w \<and> modal w' \<noteq> Some True)"

text \<open>
  The dialog is open over a cart with a shirt and the fee line, the user wants the fee,
  and main and drawer checkboxes are checked.
\<close>

definition dialog_open :: world where
  "dialog_open =
     world0\<lparr>store := [shirt, fee_line 35], session := [SESSION_KEY_ADDED \<mapsto> ''true''],
            boxes := (\<lambda>t. if t = CbMain \<or> t = CbDrawer
                            then Some \<lparr>checked = True, disabled = False\<rparr> else None),
            modal := Some True, scroll_locked := True\<rparr>"

text \<open>
  What the session may hold when nothing but the script writes it: no declined key, and
  the selected key absent or \<open>true\<close>.
\<close>

definition pref_ok :: "world \<Rightarrow> bool" where
  "pref_ok w =
     (session w SESSION_KEY_DECLINED = None \<and>
      (session w SESSION_KEY_ADDED = None \<or> session w SESSION_KEY_ADDED = Some ''true''))"

text \<open>
  How a step may change the session storage: every key keeps its value, except that the
  selected key may be removed or set to \<open>true\<close>, and the declined key may be removed.
\<close>

definition only_selected_written :: "(string \<rightharpoonup> string) \<Rightarrow> (string \<rightharpoonup> string) \<Rightarrow> bool" where
  "only_selected_written s s' =
     (\<forall>k. s' k = s k \<or>
          (k = SESSION_KEY_ADDED \<and> (s' k = None \<or> s' k = Some ''true'')) \<or>
          (k = SESSION_KEY_DECLINED \<and> s' k = None))"

text \<open>Two fee lines, with different keys, are all that is left in the cart.\<close>

definition fee_line2 :: "nat \<Rightarrow> line_item" where
  "fee_line2 q = \<lparr>key = ''fee:2'', sku = PAYPAL_FEE_SKU, quantity = q, price = 1\<rparr>"

definition two_fee_lines :: world where
  "two_fee_lines = world0\<lparr>store := [fee_line 35, fee_line2 7]\<rparr>"

text \<open>
  The page has just loaded on a cart of one shirt; the user has asked for the fee (on
  the product page), and no fee line is in the cart yet.
\<close>

definition wants_fee_no_line :: world where
  "wants_fee_no_line =
     world0\<lparr>store := [shirt], session := [SESSION_KEY_ADDED \<mapsto> ''true''],
            boxes := (\<lambda>t. if t = CbMain then Some \<lparr>checked = True, disabled = False\<rparr> else None)\<rparr>"

text \<open>
  The fee is in the cart and in step, the user wants it, the main checkbox is checked,
  and the next read of the cart fails.
\<close>

definition uncheck_unreachable :: world where
  "uncheck_unreachable =
     world0\<lparr>store := [shirt, fee_line 35], reads := [False],
            session := [SESSION_KEY_ADDED \<mapsto> ''true''],
            boxes := (\<lambda>t. if t = CbMain then Some \<lparr>checked = True, disabled = False\<rparr> else None)\<rparr>"

section \<open>Properties\<close>

subsection \<open>The fee is positive on a positive subtotal\<close>

lemma FEE_PERCENTAGE_value: "FEE_PERCENTAGE = 5044031582654956"
  by (simp add: FEE_PERCENTAGE_def round_half_even_def)

lemma FEE_PERCENTAGE_bits: "bitlen FEE_PERCENTAGE = 53"
  by (simp add: FEE_PERCENTAGE_value bitlen.simps)

lemma bitlen_lower: "0 < n \<Longrightarrow> 2 ^ bitlen n \<le> 2 * n"
proof (induction n rule: bitlen.induct)
  case (1 n)
  show ?case
  proof (cases "n = 1")
    case True
    then show ?thesis by (simp add: bitlen.simps)
  next
    case False
    with "1.prems" have pos: "0 < n div 2" by simp
    have "2 ^ bitlen (n div 2) \<le> 2 * (n div 2)"
      using "1.IH" "1.prems" pos by simp
    also have "\<dots> \<le> n" by simp
    finally have "2 * 2 ^ bitlen (n div 2) \<le> 2 * n" by simp
    moreover have "bitlen n = Suc (bitlen (n div 2))"
      using "1.prems" by (simp add: bitlen.simps)
    ultimately show ?thesis by simp
  qed
qed

lemma round_half_even_lower: "0 < d \<Longrightarrow> n div d \<le> round_half_even n d"
  by (simp add: round_half_even_def Let_def)

lemma round53_pos:
  assumes "0 < n"
  shows "0 < round53 n"
proof -
  define sh where "sh = bitlen n - 53"
  have "0 < bitlen n" using assms by (simp add: bitlen.simps)
  then have "Suc sh \<le> bitlen n" by (simp add: sh_def)
  then have "(2::int) ^ Suc sh \<le> 2 ^ bitlen n"
    by (rule power_increasing) simp_all
  also have "\<dots> \<le> 2 * n" using assms by (rule bitlen_lower)
  finally have "(2::int) ^ sh \<le> n" by simp
  then have "(2::int) ^ sh div 2 ^ sh \<le> n div 2 ^ sh"
    by (rule zdiv_mono1) simp
  then have "1 \<le> n div 2 ^ sh" by simp
  also have "\<dots> \<le> round_half_even n (2 ^ sh)"
    by (rule round_half_even_lower) simp
  finally have "0 < round_half_even n (2 ^ sh) * 2 ^ sh" by simp
  then show ?thesis by (simp add: round53_def sh_def Let_def)
qed

lemma Math_ceil_pos: "0 < n \<Longrightarrow> 0 < Math_ceil n"
proof -
  assume "0 < n"
  then have "(- n) div 2 ^ 57 < 0"
    by (simp add: neg_imp_zdiv_neg_iff)
  then show ?thesis by (simp add: Math_ceil_def)
qed

lemma calculateFee_pos: "0 < s \<Longrightarrow> 0 < calculateFee s"
proof -
  assume "0 < s"
  then have "0 < int s * FEE_PERCENTAGE" by (simp add: FEE_PERCENTAGE_value)
  then have "0 < Math_ceil (round53 (int s * FEE_PERCENTAGE))"
    by (intro Math_ceil_pos round53_pos)
  then show ?thesis by (simp add: calculateFee_def)
qed

subsection \<open>Requests and reads\<close>

lemma fetch_eq:
  "fetch r w = (next_answer w,
     w\<lparr>requests := requests w @ [r], net := tl (net w),
       store := (if next_answer w = Ok \<or> next_answer w = Unparsable
                 then store_apply r (store w) else store w)\<rparr>)"
  by (simp add: fetch_def Let_def)

lemma getCart_eq:
  "getCart w =
     (if next_read w then Some (store w) else None,
      w\<lparr>requests := requests w @ [GetCart], reads := tl (reads w)\<rparr>)"
  by (simp add: getCart_def Let_def)

lemma next_read_upd [simp]:
  "next_read (w\<lparr>requests := r\<rparr>) = next_read w"
  "next_read (w\<lparr>reads := rs\<rparr>) = (case rs of [] \<Rightarrow> True | b # _ \<Rightarrow> b)"
  by (simp_all add: next_read_def)

lemma next_answer_upd [simp]:
  "next_answer (w\<lparr>requests := r\<rparr>) = next_answer w"
  "next_answer (w\<lparr>reads := rs\<rparr>) = next_answer w"
  "next_answer (w\<lparr>store := s\<rparr>) = next_answer w"
  by (simp_all add: next_answer_def)

lemma reads_ok_next: "False \<notin> set (reads w) \<Longrightarrow> next_read w"
  by (cases "reads w") (auto simp: next_read_def)

lemma reads_ok_tl: "False \<notin> set rs \<Longrightarrow> (case tl rs of [] \<Rightarrow> True | b # _ \<Rightarrow> b)"
  by (cases rs; cases "tl rs") auto

lemma fee_variant_set [simp]: "PAYPAL_FEE_VARIANT_ID \<noteq> 0"
  by (simp add: PAYPAL_FEE_VARIANT_ID_def)

subsection \<open>Carts\<close>

lemma subtotal_foldl:
  "foldl (\<lambda>subtotal item. if sku item \<noteq> PAYPAL_FEE_SKU then subtotal + final_line_price item
                           else subtotal) a items =
   a + sum_list (map final_line_price (filter (\<lambda>item. \<not> is_fee item) items))"
  by (induction items arbitrary: a) (simp_all add: is_fee_def)

lemma subtotal_sum:
  "getSubtotalWithoutFee items =
     sum_list (map final_line_price (filter (\<lambda>item. \<not> is_fee item) items))"
  by (simp add: getSubtotalWithoutFee_def subtotal_foldl)

lemma find_fee_None: "findFeeLineItem items = None \<longleftrightarrow> fee_count items = 0"
  by (induction items) (auto simp: findFeeLineItem_def fee_count_def is_fee_def)

lemma find_fee_Some:
  "findFeeLineItem items = Some f \<Longrightarrow> f \<in> set items \<and> is_fee f \<and> 0 < fee_count items"
  by (induction items) (auto simp: findFeeLineItem_def fee_count_def is_fee_def split: if_splits)

lemma fee_index_bounds:
  "findFeeLineItem items = Some f \<Longrightarrow>
     0 < feeLineIndex items \<and> feeLineIndex items \<le> length items"
  by (induction items) (auto simp: findFeeLineItem_def feeLineIndex_def split: if_splits)

lemma remove_first_fee:
  "findFeeLineItem items = Some f \<Longrightarrow>
   fee_count (take (feeLineIndex items - 1) items @ drop (feeLineIndex items) items)
     = fee_count items - 1 \<and>
   getSubtotalWithoutFee (take (feeLineIndex items - 1) items @ drop (feeLineIndex items) items)
     = getSubtotalWithoutFee items"
  by (induction items)
     (auto simp: findFeeLineItem_def feeLineIndex_def fee_count_def subtotal_sum is_fee_def
           split: if_splits)

lemma store_remove:
  "findFeeLineItem items = Some f \<Longrightarrow>
   fee_count (store_apply (PostChangeLine (feeLineIndex items) 0) items) = fee_count items - 1 \<and>
   getSubtotalWithoutFee (store_apply (PostChangeLine (feeLineIndex items) 0) items)
     = getSubtotalWithoutFee items"
  using fee_index_bounds [of items f] remove_first_fee [of items f]
  by (simp add: store_apply_def)

lemma find_snoc:
  "find P (xs @ [x]) = (case find P xs of None \<Rightarrow> (if P x then Some x else None) | Some y \<Rightarrow> Some y)"
  by (induction xs) auto

lemma store_add:
  "findFeeLineItem items = None \<Longrightarrow> 0 < q \<Longrightarrow>
   (\<exists>f. findFeeLineItem (store_apply (PostAdd q) items) = Some f \<and> quantity f = q) \<and>
   fee_count (store_apply (PostAdd q) items) = 1 \<and>
   getSubtotalWithoutFee (store_apply (PostAdd q) items) = getSubtotalWithoutFee items"
  using find_fee_None [of items]
  by (simp add: findFeeLineItem_def store_apply_def fee_count_def subtotal_sum is_fee_def find_snoc)

lemma store_set_fee_count:
  "fee_count (store_apply (PostChangeKey k q) items) \<le> fee_count items"
  by (induction items) (auto simp: store_apply_def fee_count_def is_fee_def)

lemma store_set:
  assumes "findFeeLineItem items = Some f" and "distinct (map key items)" and "0 < q"
  shows "findFeeLineItem (store_apply (PostChangeKey (key f) q) items) = Some (f\<lparr>quantity := q\<rparr>) \<and>
         getSubtotalWithoutFee (store_apply (PostChangeKey (key f) q) items)
           = getSubtotalWithoutFee items"
  using assms
proof (induction items)
  case Nil
  then show ?case by (simp add: findFeeLineItem_def)
next
  case (Cons a items)
  show ?case
  proof (cases "sku a = PAYPAL_FEE_SKU")
    case True
    with Cons.prems have fa: "f = a" by (simp add: findFeeLineItem_def)
    have "key a \<notin> key ` set items" using Cons.prems(2) by simp
    then have "\<forall>i \<in> set items. key i \<noteq> key a" by (metis imageI)
    then have "map (\<lambda>item. if key item = key a then item\<lparr>quantity := q\<rparr> else item) items = items"
      by (induction items) auto
    then show ?thesis using True fa Cons.prems(3)
      by (simp add: findFeeLineItem_def store_apply_def subtotal_sum is_fee_def)
  next
    case False
    with Cons.prems have f: "findFeeLineItem items = Some f" by (simp add: findFeeLineItem_def)
    then have "f \<in> set items" using find_fee_Some by blast
    then have "key a \<noteq> key f" using Cons.prems(2) by auto
    moreover have d: "distinct (map key items)" using Cons.prems(2) by simp
    ultimately show ?thesis using Cons.IH [OF f d Cons.prems(3)] False Cons.prems(3)
      by (simp add: findFeeLineItem_def store_apply_def subtotal_sum is_fee_def)
  qed
qed

subsection \<open>What each call issues and changes\<close>

lemma store_apply_reads [simp]:
  "store_apply GetCart items = items" "store_apply GetSection items = items"
  by (simp_all add: store_apply_def)

lemma is_mutation_simps [simp]:
  "is_mutation GetCart = False" "is_mutation GetSection = False"
  "is_mutation (PostAdd n) = True" "is_mutation (PostAddForm i) = True"
  "is_mutation (PostChangeLine l q) = True" "is_mutation (PostChangeKey k q) = True"
  by (simp_all add: is_mutation_def)

lemma issued_append: "requests w' = requests w @ xs \<Longrightarrow> issued w w' = xs"
  by (simp add: issued_def)

lemma refreshCartUI_frame:
  "store (refreshCartUI w) = store w"
  "session (refreshCartUI w) = session w"
  "reads (refreshCartUI w) = reads w"
  "requests (refreshCartUI w) = requests w @ (if cart_section w then [GetSection] else [])"
  by (simp_all add: refreshCartUI_def fetch_eq CheckboxHandler_init_def set_checked_def
        reload_def Let_def split: outcome.splits)

lemma removeFee_requests:
  "requests (snd (removeFee w)) =
     requests w @ GetCart #
       (if next_read w \<and> findFeeLineItem (store w) \<noteq> None
        then [PostChangeLine (feeLineIndex (store w)) 0] else [])"
  by (auto simp add: removeFee_def getCart_eq fetch_eq split: option.splits outcome.splits)

lemma removeFee_store:
  "store (snd (removeFee w)) =
     (if next_read w \<and> findFeeLineItem (store w) \<noteq> None \<and>
         (next_answer w = Ok \<or> next_answer w = Unparsable)
      then store_apply (PostChangeLine (feeLineIndex (store w)) 0) (store w)
      else store w)"
  by (auto simp add: removeFee_def getCart_eq fetch_eq split: option.splits outcome.splits)

lemma removeFee_frame:
  "session (snd (removeFee w)) = session w"
  "reads (snd (removeFee w)) = tl (reads w)"
  "boxes (snd (removeFee w)) = boxes w"
  "cart_section (snd (removeFee w)) = cart_section w"
  by (simp_all add: removeFee_def getCart_eq fetch_eq split: option.splits outcome.splits)

lemma removeFee_frame2:
  "modal (snd (removeFee w)) = modal w"
  "reloads (snd (removeFee w)) = reloads w"
  "net w = [] \<Longrightarrow> net (snd (removeFee w)) = []"
  by (simp_all add: removeFee_def getCart_eq fetch_eq split: option.splits outcome.splits)

lemma addFee_requests:
  "requests (snd (addFee n w)) =
     requests w @ PostAdd n #
       (if next_answer w = Ok \<and> cart_section w then [GetSection] else [])"
  by (simp add: addFee_def fetch_eq refreshCartUI_frame alert_def split: outcome.splits errbody.splits bool.splits)

lemma addFee_store:
  "store (snd (addFee n w)) =
     (if next_answer w = Ok \<or> next_answer w = Unparsable
      then store_apply (PostAdd n) (store w) else store w)"
  by (simp add: addFee_def fetch_eq refreshCartUI_frame alert_def split: outcome.splits errbody.splits bool.splits)

lemma addFee_frame:
  "session (snd (addFee n w)) = session w"
  "reads (snd (addFee n w)) = reads w"
  by (simp_all add: addFee_def fetch_eq refreshCartUI_frame alert_def split: outcome.splits errbody.splits bool.splits)

lemma setFeeQuantity_requests:
  "requests (snd (setFeeQuantity k q w)) =
     requests w @ PostChangeKey k q #
       (if next_answer w = Ok \<and> cart_section w then [GetSection] else [])"
  by (simp add: setFeeQuantity_def fetch_eq refreshCartUI_frame split: outcome.splits)

lemma setFeeQuantity_store:
  "store (snd (setFeeQuantity k q w)) =
     (if next_answer w = Ok \<or> next_answer w = Unparsable
      then store_apply (PostChangeKey k q) (store w) else store w)"
  by (simp add: setFeeQuantity_def fetch_eq refreshCartUI_frame split: outcome.splits)

lemma setFeeQuantity_frame:
  "session (snd (setFeeQuantity k q w)) = session w"
  "reads (snd (setFeeQuantity k q w)) = reads w"
  by (simp_all add: setFeeQuantity_def fetch_eq refreshCartUI_frame split: outcome.splits)


text \<open>What \<open>updateFee\<close> decides, from the cart it reads.\<close>

lemma updateFee_writes:
  "writes w (snd (updateFee w)) =
     (if \<not> next_read w then []
      else if getSubtotalWithoutFee (store w) = 0 then
        (if second_read w \<and> findFeeLineItem (store w) \<noteq> None
         then [PostChangeLine (feeLineIndex (store w)) 0] else [])
      else
        (case findFeeLineItem (store w) of
           None \<Rightarrow> [PostAdd (calculateFee (getSubtotalWithoutFee (store w)))]
         | Some f \<Rightarrow>
             if quantity f = calculateFee (getSubtotalWithoutFee (store w)) then []
             else [PostChangeKey (key f) (calculateFee (getSubtotalWithoutFee (store w)))]))"
  by (simp add: writes_def issued_def updateFee_def getCart_eq Let_def removeFee_requests
        addFee_requests setFeeQuantity_requests second_read_def split: option.splits)

lemma updateFee_store:
  "store (snd (updateFee w)) =
     (if \<not> next_read w then store w
      else if getSubtotalWithoutFee (store w) = 0 then
        (if second_read w \<and> findFeeLineItem (store w) \<noteq> None \<and>
            (next_answer w = Ok \<or> next_answer w = Unparsable)
         then store_apply (PostChangeLine (feeLineIndex (store w)) 0) (store w)
         else store w)
      else
        (case findFeeLineItem (store w) of
           None \<Rightarrow>
             if next_answer w = Ok \<or> next_answer w = Unparsable
             then store_apply (PostAdd (calculateFee (getSubtotalWithoutFee (store w)))) (store w)
             else store w
         | Some f \<Rightarrow>
             if quantity f = calculateFee (getSubtotalWithoutFee (store w)) then store w
             else if next_answer w = Ok \<or> next_answer w = Unparsable
             then store_apply (PostChangeKey (key f)
                    (calculateFee (getSubtotalWithoutFee (store w)))) (store w)
             else store w))"
  by (simp add: updateFee_def getCart_eq Let_def removeFee_store
        addFee_store setFeeQuantity_store second_read_def split: option.splits)

lemma updateFee_frame:
  "session (snd (updateFee w)) = session w"
  by (simp add: updateFee_def getCart_eq Let_def removeFee_frame
        addFee_frame setFeeQuantity_frame split: option.splits)

lemma updateFee_requests_mono:
  "\<exists>xs. requests (snd (updateFee w)) = requests w @ GetCart # xs"
  by (simp add: updateFee_def getCart_eq Let_def removeFee_requests
        addFee_requests setFeeQuantity_requests split: option.splits)

subsection \<open>A subtotal of zero\<close>

lemma second_read_ok: "False \<notin> set (reads w) \<Longrightarrow> second_read w"
  unfolding second_read_def by (rule reads_ok_tl)

lemma checkEmptyCart_zero:
  assumes "getSubtotalWithoutFee (store w) = 0" and "next_read w"
  shows "requests (checkEmptyCart w) =
           requests w @ GetCart # GetCart #
             (if second_read w \<and> findFeeLineItem (store w) \<noteq> None
              then [PostChangeLine (feeLineIndex (store w)) 0] else [])"
    and "session (checkEmptyCart w) = (session w)(SESSION_KEY_ADDED := None)"
    and "store (checkEmptyCart w) =
           (if second_read w \<and> findFeeLineItem (store w) \<noteq> None \<and>
               (next_answer w = Ok \<or> next_answer w = Unparsable)
            then store_apply (PostChangeLine (feeLineIndex (store w)) 0) (store w)
            else store w)"
    and "boxes (checkEmptyCart w) CbMain = map_option (\<lambda>box. box\<lparr>checked := False\<rparr>) (boxes w CbMain)"
    and "boxes (checkEmptyCart w) CbDrawer = map_option (\<lambda>box. box\<lparr>checked := False\<rparr>) (boxes w CbDrawer)"
  using assms
  by (auto simp add: checkEmptyCart_def getCart_eq Let_def removeFee_requests removeFee_store
        removeFee_frame set_checked_def removeItem_def second_read_def)

lemma updateFee_zero:
  assumes "getSubtotalWithoutFee (store w) = 0" and "next_read w"
  shows "requests (snd (updateFee w)) =
           requests w @ GetCart # GetCart #
             (if second_read w \<and> findFeeLineItem (store w) \<noteq> None
              then [PostChangeLine (feeLineIndex (store w)) 0] else [])"
  using assms
  by (simp add: updateFee_def getCart_eq Let_def removeFee_requests second_read_def)

text \<open>
  C3. When the subtotal without the fee is 0 and the cart can be read, \<open>updateFee\<close>
  issues two reads and then, exactly when the cart has a fee line, the removal of that
  line (quantity 0 at the fee's position); it issues no add and no set-quantity. The
  session's preference plays no part. \<open>checkEmptyCart\<close>, which the listeners run beside
  it, issues the same requests and clears the stored preference. When the store answers the removal, one fee line fewer is left.
\<close>

theorem zero_subtotal_removes:
  assumes "getSubtotalWithoutFee (store w) = 0" and "False \<notin> set (reads w)"
  shows "issued w (snd (updateFee w)) =
           GetCart # GetCart #
             (if findFeeLineItem (store w) \<noteq> None
              then [PostChangeLine (feeLineIndex (store w)) 0] else []) \<and>
         issued w (checkEmptyCart w) = issued w (snd (updateFee w)) \<and>
         session (checkEmptyCart w) SESSION_KEY_ADDED = None \<and>
         \<not> userWantsFee (checkEmptyCart w) \<and>
         (next_answer w = Ok \<longrightarrow>
            fee_count (store (snd (updateFee w))) = fee_count (store w) - 1 \<and>
            fee_count (store (checkEmptyCart w)) = fee_count (store w) - 1)"
proof -
  have r: "next_read w" and r2: "second_read w"
    using assms(2) by (simp_all add: reads_ok_next second_read_ok)
  have a: "issued w (snd (updateFee w)) =
           GetCart # GetCart #
             (if findFeeLineItem (store w) \<noteq> None
              then [PostChangeLine (feeLineIndex (store w)) 0] else [])"
    using updateFee_zero [OF assms(1) r] r2 by (simp add: issued_def)
  have b: "issued w (checkEmptyCart w) = issued w (snd (updateFee w))"
    using updateFee_zero [OF assms(1) r] checkEmptyCart_zero(1) [OF assms(1) r]
    by (simp add: issued_def)
  have c: "session (checkEmptyCart w) SESSION_KEY_ADDED = None"
    using checkEmptyCart_zero(2) [OF assms(1) r] by simp
  have d: "fee_count (store (snd (updateFee w))) = fee_count (store w) - 1"
    if "next_answer w = Ok"
  proof (cases "findFeeLineItem (store w)")
    case None
    then show ?thesis using that r r2 assms(1) find_fee_None [of "store w"]
      by (simp add: updateFee_store)
  next
    case (Some f)
    then show ?thesis using that r r2 assms(1) store_remove [OF Some]
      by (simp add: updateFee_store)
  qed
  have e: "store (checkEmptyCart w) = store (snd (updateFee w))"
    using checkEmptyCart_zero(3) [OF assms(1) r] r assms(1) by (simp add: updateFee_store)
  show ?thesis using a b c d e by (simp add: userWantsFee_def)
qed

theorem zero_subtotal_removes_witness:
  "getSubtotalWithoutFee (store cart_only_fee) = 0 \<and>
   False \<notin> set (reads cart_only_fee) \<and>
   userWantsFee cart_only_fee \<and>
   issued cart_only_fee (snd (updateFee cart_only_fee)) = [GetCart, GetCart, PostChangeLine 1 0] \<and>
   \<not> userWantsFee (checkEmptyCart cart_only_fee) \<and>
   fee_count (store (snd (updateFee cart_only_fee))) = 0"
proof -
  have h1: "getSubtotalWithoutFee (store cart_only_fee) = 0"
    by (simp add: cart_only_fee_def world0_def getSubtotalWithoutFee_def fee_line_def)
  have h2: "False \<notin> set (reads cart_only_fee)"
    by (simp add: cart_only_fee_def world0_def)
  have h3: "next_answer cart_only_fee = Ok"
    by (simp add: cart_only_fee_def world0_def next_answer_def)
  have h4: "findFeeLineItem (store cart_only_fee) = Some (fee_line 35)"
    by (simp add: cart_only_fee_def world0_def findFeeLineItem_def fee_line_def)
  have h5: "feeLineIndex (store cart_only_fee) = 1"
    by (simp add: cart_only_fee_def world0_def feeLineIndex_def fee_line_def)
  have h6: "fee_count (store cart_only_fee) = 1"
    by (simp add: cart_only_fee_def world0_def fee_count_def is_fee_def fee_line_def)
  have h7: "userWantsFee cart_only_fee"
    by (simp add: cart_only_fee_def world0_def userWantsFee_def)
  show ?thesis
    using zero_subtotal_removes [OF h1 h2] h1 h2 h3 h4 h5 h6 h7 by simp
qed

subsection \<open>The fee computation\<close>

lemma calculateFee_1000: "calculateFee 1000 = 35"
  by (simp add: calculateFee_def Math_ceil_def round53_def FEE_PERCENTAGE_value bitlen.simps
        round_half_even_def)

text \<open>The examples of the specification hold.\<close>

lemma calculateFee_examples:
  "calculateFee 1000 = 35 \<and> calculateFee 1001 = 36 \<and> calculateFee 0 = 0"
  by (simp add: calculateFee_def Math_ceil_def round53_def FEE_PERCENTAGE_value bitlen.simps
        round_half_even_def)

text \<open>
  C1. The function is not the exact ceiling of 3.5 percent for every subtotal. At a
  subtotal of 200 cents, 3.5 percent is exactly 7 cents, but the binary64 product
  \<open>200 * 0.035\<close> is \<open>7.000000000000001\<close>, and \<open>Math.ceil\<close> makes 8 of it. The same
  happens at 3000 cents (106 instead of 105).
\<close>

theorem calculateFee_overshoots:
  "calculateFee 200 = 8 \<and> spec_calculateFee 200 = 7 \<and>
   calculateFee 3000 = 106 \<and> spec_calculateFee 3000 = 105"
  by (simp add: calculateFee_def Math_ceil_def round53_def FEE_PERCENTAGE_value bitlen.simps
        round_half_even_def spec_calculateFee_def)

subsection \<open>The trigger pipelines\<close>

lemma updateFee_log:
  "requests (snd (updateFee w)) = requests w @ issued w (snd (updateFee w))"
proof -
  obtain xs where "requests (snd (updateFee w)) = requests w @ GetCart # xs"
    using updateFee_requests_mono by blast
  then show ?thesis by (simp add: issued_def)
qed

lemma recalcTask_requests:
  "requests (recalcTask w) =
     requests w @ GetCart #
       (if next_read w \<and> (findFeeLineItem (store w) \<noteq> None \<or> userWantsFee w)
        then issued (snd (getCart w)) (snd (updateFee (snd (getCart w)))) @
             (if cart_section (snd (updateFee (snd (getCart w)))) then [GetSection] else [])
        else [])"
  by (simp add: recalcTask_def getCart_eq Let_def refreshCartUI_frame userWantsFee_def
        updateFee_log [of "w\<lparr>requests := requests w @ [GetCart], reads := tl (reads w)\<rparr>"])

lemma recalcTask_writes:
  "writes w (recalcTask w) =
     (if next_read w \<and> (findFeeLineItem (store w) \<noteq> None \<or> userWantsFee w)
      then writes (snd (getCart w)) (snd (updateFee (snd (getCart w))))
      else [])"
  by (auto simp add: writes_def issued_def [of w] recalcTask_requests)

lemma recalcTask_store:
  "store (recalcTask w) =
     (if next_read w \<and> (findFeeLineItem (store w) \<noteq> None \<or> userWantsFee w)
      then store (snd (updateFee (snd (getCart w))))
      else store w)"
  by (simp add: recalcTask_def getCart_eq Let_def refreshCartUI_frame userWantsFee_def)

lemma recalcTask_session: "session (recalcTask w) = session w"
  by (simp add: recalcTask_def getCart_eq Let_def refreshCartUI_frame updateFee_frame)

lemma initAlign_store:
  "store (initAlign w) =
     (if next_read w \<and> (findFeeLineItem (store w) \<noteq> None \<or> userWantsFee w)
      then store (snd (updateFee (snd (getCart w))))
      else store w)"
  by (simp add: initAlign_def getCart_eq Let_def userWantsFee_def)

lemma initAlign_session: "session (initAlign w) = session w"
  by (simp add: initAlign_def getCart_eq Let_def updateFee_frame)

lemma writes_cong: "requests w' = requests w \<Longrightarrow> writes w' x = writes w x"
  by (simp add: writes_def issued_def)

lemma getCart_frame:
  "store (snd (getCart w)) = store w"
  "session (snd (getCart w)) = session w"
  "reads (snd (getCart w)) = tl (reads w)"
  "requests (snd (getCart w)) = requests w @ [GetCart]"
  "next_answer (snd (getCart w)) = next_answer w"
  "userWantsFee (snd (getCart w)) = userWantsFee w"
  by (simp_all add: getCart_eq userWantsFee_def)

lemma reads_ok_getCart: "False \<notin> set (reads w) \<Longrightarrow> False \<notin> set (reads (snd (getCart w)))"
  by (cases "reads w") (simp_all add: getCart_eq)

lemma updateFee_decides:
  assumes "False \<notin> set (reads w)"
  shows "writes w (snd (updateFee w)) =
     (case findFeeLineItem (store w) of
        None \<Rightarrow>
          if getSubtotalWithoutFee (store w) = 0 then []
          else [PostAdd (calculateFee (getSubtotalWithoutFee (store w)))]
      | Some f \<Rightarrow>
          if getSubtotalWithoutFee (store w) = 0
          then [PostChangeLine (feeLineIndex (store w)) 0]
          else if quantity f = calculateFee (getSubtotalWithoutFee (store w)) then []
          else [PostChangeKey (key f) (calculateFee (getSubtotalWithoutFee (store w)))])"
  using reads_ok_next [OF assms] second_read_ok [OF assms]
  by (simp add: updateFee_writes split: option.splits)

text \<open>
  C2, as the code has it. \<open>updateFee\<close> never looks at the preference; its callers run it
  whenever the cart has a fee line or the user wants the fee. So with the preference not
  set, a fee line that exists is kept in step with the subtotal: it is removed only on a
  subtotal of 0, set to the fee of the subtotal when its quantity differs, and left alone
  when it matches. Without a fee line the pipeline issues no mutation. (The pipeline is
  the timer's callback and the \<open>cart:updated\<close> listener; every read of the cart
  succeeds.)
\<close>

theorem unset_preference_keeps_fee:
  assumes "\<not> userWantsFee w" and "False \<notin> set (reads w)"
  shows "writes w (recalcTask w) =
           (case findFeeLineItem (store w) of
              None \<Rightarrow> []
            | Some f \<Rightarrow>
                if getSubtotalWithoutFee (store w) = 0
                then [PostChangeLine (feeLineIndex (store w)) 0]
                else if quantity f = calculateFee (getSubtotalWithoutFee (store w)) then []
                else [PostChangeKey (key f) (calculateFee (getSubtotalWithoutFee (store w)))]) \<and>
         writes w (cartUpdatedListener w) = writes w (recalcTask w)"
proof -
  have main: "writes v (recalcTask v) =
           (case findFeeLineItem (store v) of
              None \<Rightarrow> []
            | Some f \<Rightarrow>
                if getSubtotalWithoutFee (store v) = 0
                then [PostChangeLine (feeLineIndex (store v)) 0]
                else if quantity f = calculateFee (getSubtotalWithoutFee (store v)) then []
                else [PostChangeKey (key f) (calculateFee (getSubtotalWithoutFee (store v)))])"
    if nw: "\<not> userWantsFee v" and ok: "False \<notin> set (reads v)" for v
    using nw reads_ok_next [OF ok] updateFee_decides [OF reads_ok_getCart [OF ok]]
    by (simp add: recalcTask_writes getCart_frame split: option.splits)
  let ?w' = "w\<lparr>empty_checks := empty_checks w + 1\<rparr>"
  have "writes w (cartUpdatedListener w) = writes ?w' (recalcTask ?w')"
    by (simp add: cartUpdatedListener_def writes_def issued_def)
  also have "\<dots> = writes w (recalcTask w)"
    using main [of ?w'] main [OF assms] assms
    by (simp add: userWantsFee_def split: option.splits)
  finally show ?thesis using main [OF assms] by simp
qed

theorem unset_preference_keeps_fee_witness:
  "\<not> userWantsFee fee_out_of_step \<and> False \<notin> set (reads fee_out_of_step) \<and>
   writes fee_out_of_step (recalcTask fee_out_of_step) = [PostChangeKey ''fee:1'' 35]"
proof -
  have h1: "\<not> userWantsFee fee_out_of_step"
    by (simp add: fee_out_of_step_def world0_def userWantsFee_def)
  have h2: "False \<notin> set (reads fee_out_of_step)"
    by (simp add: fee_out_of_step_def world0_def)
  have h3: "findFeeLineItem (store fee_out_of_step) = Some (fee_line 10)"
    by (simp add: fee_out_of_step_def world0_def findFeeLineItem_def fee_line_def shirt_def
          PAYPAL_FEE_SKU_def)
  have h4: "getSubtotalWithoutFee (store fee_out_of_step) = 1000"
    by (simp add: fee_out_of_step_def world0_def getSubtotalWithoutFee_def fee_line_def shirt_def
          PAYPAL_FEE_SKU_def final_line_price_def)
  show ?thesis
    using unset_preference_keeps_fee [OF h1 h2] h1 h2 h3 h4
    by (simp add: calculateFee_1000 fee_line_def)
qed

text \<open>
  C2 as the specification states it fails: with no preference stored and a fee line of
  quantity 10 beside a shirt of 1000 cents, \<open>updateFee\<close> and the \<open>cart:updated\<close>
  listener do not remove the fee line; they set its quantity to 35, and the line stays.
\<close>

theorem unset_preference_counterexample:
  "\<not> userWantsFee fee_out_of_step \<and>
   findFeeLineItem (store fee_out_of_step) = Some (fee_line 10) \<and>
   writes fee_out_of_step (snd (updateFee fee_out_of_step)) = [PostChangeKey ''fee:1'' 35] \<and>
   writes fee_out_of_step (cartUpdatedListener fee_out_of_step) = [PostChangeKey ''fee:1'' 35] \<and>
   store (cartUpdatedListener fee_out_of_step) = [shirt, fee_line 35]"
proof -
  have h1: "\<not> userWantsFee fee_out_of_step"
    by (simp add: fee_out_of_step_def world0_def userWantsFee_def)
  have h2: "False \<notin> set (reads fee_out_of_step)"
    by (simp add: fee_out_of_step_def world0_def)
  have h3: "findFeeLineItem (store fee_out_of_step) = Some (fee_line 10)"
    by (simp add: fee_out_of_step_def world0_def findFeeLineItem_def fee_line_def shirt_def
          PAYPAL_FEE_SKU_def)
  have h4: "getSubtotalWithoutFee (store fee_out_of_step) = 1000"
    by (simp add: fee_out_of_step_def world0_def getSubtotalWithoutFee_def fee_line_def shirt_def
          PAYPAL_FEE_SKU_def final_line_price_def)
  have h5: "writes fee_out_of_step (snd (updateFee fee_out_of_step)) = [PostChangeKey ''fee:1'' 35]"
    using updateFee_decides [OF h2] h3 h4 by (simp add: calculateFee_1000 fee_line_def)
  let ?w' = "fee_out_of_step\<lparr>empty_checks := empty_checks fee_out_of_step + 1\<rparr>"
  have r: "next_read ?w'" "second_read ?w'" "next_answer ?w' = Ok"
    by (simp_all add: fee_out_of_step_def world0_def next_read_def second_read_def
          next_answer_def)
  have ok': "False \<notin> set (reads (snd (getCart ?w')))"
    by (simp add: getCart_eq fee_out_of_step_def world0_def)
  have h6: "writes fee_out_of_step (cartUpdatedListener fee_out_of_step) = [PostChangeKey ''fee:1'' 35]"
    using updateFee_decides [OF ok'] h3 h4 r
    by (simp add: cartUpdatedListener_def recalcTask_writes getCart_frame
          writes_cong [of fee_out_of_step ?w'] calculateFee_1000 fee_line_def)
  have h7: "store (cartUpdatedListener fee_out_of_step) = [shirt, fee_line 35]"
    using h3 h4 r
    by (simp add: cartUpdatedListener_def recalcTask_store updateFee_store getCart_eq
          second_read_def calculateFee_1000 store_apply_def)
       (simp add: fee_out_of_step_def world0_def fee_line_def shirt_def)
  show ?thesis using h1 h3 h5 h6 h7 by simp
qed

subsection \<open>Convergence\<close>

lemma converged_no_write:
  assumes "converged (store v)"
  shows "writes v (snd (updateFee v)) = []"
  using assms
  by (auto simp add: converged_def updateFee_writes split: option.splits)

lemma find_fee_count0: "fee_count items = 0 \<Longrightarrow> findFeeLineItem items = None"
  by (simp add: find_fee_None)

lemma first_run_converges:
  assumes d: "distinct (map key (store w))"
    and c: "getSubtotalWithoutFee (store w) = 0 \<Longrightarrow> fee_count (store w) \<le> 1"
    and ok: "False \<notin> set (reads w)" and ans: "next_answer w = Ok"
  shows "converged (store (snd (updateFee w)))"
proof -
  note r = reads_ok_next [OF ok] second_read_ok [OF ok]
  let ?s = "getSubtotalWithoutFee (store w)"
  show ?thesis
  proof (cases "findFeeLineItem (store w)")
    case None
    show ?thesis
    proof (cases "?s = 0")
      case True
      then show ?thesis using None r by (simp add: updateFee_store converged_def)
    next
      case False
      then have "0 < calculateFee ?s" by (simp add: calculateFee_pos)
      from store_add [OF None this] False show ?thesis
        using None r ans by (auto simp add: updateFee_store converged_def)
    qed
  next
    case (Some f)
    show ?thesis
    proof (cases "?s = 0")
      case True
      have "0 < fee_count (store w)" using find_fee_Some [OF Some] by simp
      with c [OF True] store_remove [OF Some]
      have "fee_count (store_apply (PostChangeLine (feeLineIndex (store w)) 0) (store w)) = 0"
        and "getSubtotalWithoutFee (store_apply (PostChangeLine (feeLineIndex (store w)) 0) (store w)) = 0"
        using True by simp_all
      then show ?thesis using True Some r ans
        by (simp add: updateFee_store converged_def find_fee_count0)
    next
      case False
      then have pos: "0 < calculateFee ?s" by (simp add: calculateFee_pos)
      show ?thesis
      proof (cases "quantity f = calculateFee ?s")
        case True
        then show ?thesis using False Some r by (simp add: updateFee_store converged_def)
      next
        case ne: False
        from store_set [OF Some d pos] show ?thesis
          using ne False Some r ans by (simp add: updateFee_store converged_def)
      qed
    qed
  qed
qed

text \<open>
  C4, as the code has it. Take a cart whose lines have distinct keys and which, when its
  subtotal without the fee is 0, has at most one fee line; let the cart be readable and
  the store accept the mutation. After \<open>updateFee\<close> has run once, a second run issues
  no mutation, whatever the network does then. And whenever the fee line's quantity
  already is the fee of the (positive) subtotal, \<open>updateFee\<close> issues no mutation.
\<close>

theorem updateFee_idempotent:
  "(distinct (map key (store w)) \<and>
    (getSubtotalWithoutFee (store w) = 0 \<longrightarrow> fee_count (store w) \<le> 1) \<and>
    False \<notin> set (reads w) \<and> next_answer w = Ok \<longrightarrow>
      writes ((snd (updateFee w))\<lparr>reads := rs, net := ns\<rparr>)
        (snd (updateFee ((snd (updateFee w))\<lparr>reads := rs, net := ns\<rparr>))) = []) \<and>
   (findFeeLineItem (store v) = Some f \<and> getSubtotalWithoutFee (store v) \<noteq> 0 \<and>
    quantity f = calculateFee (getSubtotalWithoutFee (store v)) \<longrightarrow>
      writes v (snd (updateFee v)) = [])"
proof (intro conjI impI)
  assume a: "distinct (map key (store w)) \<and>
    (getSubtotalWithoutFee (store w) = 0 \<longrightarrow> fee_count (store w) \<le> 1) \<and>
    False \<notin> set (reads w) \<and> next_answer w = Ok"
  then have "converged (store (snd (updateFee w)))"
    by (intro first_run_converges) simp_all
  then have "converged (store ((snd (updateFee w))\<lparr>reads := rs, net := ns\<rparr>))" by simp
  then show "writes ((snd (updateFee w))\<lparr>reads := rs, net := ns\<rparr>)
        (snd (updateFee ((snd (updateFee w))\<lparr>reads := rs, net := ns\<rparr>))) = []"
    by (rule converged_no_write)
next
  assume "findFeeLineItem (store v) = Some f \<and> getSubtotalWithoutFee (store v) \<noteq> 0 \<and>
    quantity f = calculateFee (getSubtotalWithoutFee (store v))"
  then have "converged (store v)" by (simp add: converged_def)
  then show "writes v (snd (updateFee v)) = []" by (rule converged_no_write)
qed

lemma fee_out_of_step_facts:
  "distinct (map key (store fee_out_of_step))"
  "fee_count (store fee_out_of_step) = 1"
  "False \<notin> set (reads fee_out_of_step)"
  "next_read fee_out_of_step"
  "next_answer fee_out_of_step = Ok"
  "findFeeLineItem (store fee_out_of_step) = Some (fee_line 10)"
  "getSubtotalWithoutFee (store fee_out_of_step) = 1000"
  by (simp_all add: fee_out_of_step_def world0_def shirt_def fee_line_def fee_count_def
        is_fee_def PAYPAL_FEE_SKU_def next_answer_def next_read_def findFeeLineItem_def
        getSubtotalWithoutFee_def final_line_price_def)

lemma in_step_facts:
  "findFeeLineItem (store in_step) = Some (fee_line 35)"
  "getSubtotalWithoutFee (store in_step) = 1000"
  by (simp_all add: in_step_def world0_def shirt_def fee_line_def PAYPAL_FEE_SKU_def
        findFeeLineItem_def getSubtotalWithoutFee_def final_line_price_def)

lemma cart_only_fee_facts:
  "distinct (map key (store cart_only_fee))"
  "fee_count (store cart_only_fee) = 1"
  "False \<notin> set (reads cart_only_fee)"
  "next_answer cart_only_fee = Ok"
  "getSubtotalWithoutFee (store cart_only_fee) = 0"
  "findFeeLineItem (store cart_only_fee) = Some (fee_line 35)"
  "feeLineIndex (store cart_only_fee) = 1"
  by (simp_all add: cart_only_fee_def world0_def fee_line_def fee_count_def is_fee_def
        next_answer_def getSubtotalWithoutFee_def findFeeLineItem_def feeLineIndex_def)

theorem updateFee_idempotent_witness:
  "distinct (map key (store fee_out_of_step)) \<and>
   getSubtotalWithoutFee (store fee_out_of_step) \<noteq> 0 \<and>
   False \<notin> set (reads fee_out_of_step) \<and> next_answer fee_out_of_step = Ok \<and>
   writes fee_out_of_step (snd (updateFee fee_out_of_step)) = [PostChangeKey ''fee:1'' 35] \<and>
   writes ((snd (updateFee fee_out_of_step))\<lparr>reads := [], net := []\<rparr>)
     (snd (updateFee ((snd (updateFee fee_out_of_step))\<lparr>reads := [], net := []\<rparr>))) = [] \<and>
   distinct (map key (store cart_only_fee)) \<and>
   getSubtotalWithoutFee (store cart_only_fee) = 0 \<and> fee_count (store cart_only_fee) \<le> 1 \<and>
   False \<notin> set (reads cart_only_fee) \<and> next_answer cart_only_fee = Ok \<and>
   writes cart_only_fee (snd (updateFee cart_only_fee)) = [PostChangeLine 1 0] \<and>
   writes ((snd (updateFee cart_only_fee))\<lparr>reads := [], net := []\<rparr>)
     (snd (updateFee ((snd (updateFee cart_only_fee))\<lparr>reads := [], net := []\<rparr>))) = [] \<and>
   findFeeLineItem (store in_step) = Some (fee_line 35) \<and>
   getSubtotalWithoutFee (store in_step) \<noteq> 0 \<and>
   quantity (fee_line 35) = calculateFee (getSubtotalWithoutFee (store in_step)) \<and>
   writes in_step (snd (updateFee in_step)) = []"
proof -
  have w1: "writes fee_out_of_step (snd (updateFee fee_out_of_step)) = [PostChangeKey ''fee:1'' 35]"
    using updateFee_decides [OF fee_out_of_step_facts(3)]
    by (simp add: fee_out_of_step_facts calculateFee_1000 fee_line_def)
  have w2: "writes cart_only_fee (snd (updateFee cart_only_fee)) = [PostChangeLine 1 0]"
    using updateFee_decides [OF cart_only_fee_facts(3)]
    by (simp add: cart_only_fee_facts)
  have q: "quantity (fee_line 35) = calculateFee (getSubtotalWithoutFee (store in_step))"
    by (simp add: in_step_facts calculateFee_1000 fee_line_def)
  show ?thesis
    using updateFee_idempotent [of fee_out_of_step "[]" "[]" in_step "fee_line 35"]
      updateFee_idempotent [of cart_only_fee "[]" "[]" in_step "fee_line 35"] w1 w2 q
    by (simp add: fee_out_of_step_facts cart_only_fee_facts in_step_facts)
qed

text \<open>
  C4 as the specification states it, for every snapshot, fails. With two fee lines left
  in the cart and a subtotal of 0, \<open>updateFee\<close> removes the first fee line it finds, and
  the second run, on the cart the first run left, removes the other: it issues a
  mutation again.
\<close>

theorem updateFee_idempotent_counterexample:
  "distinct (map key (store two_fee_lines)) \<and>
   getSubtotalWithoutFee (store two_fee_lines) = 0 \<and>
   False \<notin> set (reads two_fee_lines) \<and> next_answer two_fee_lines = Ok \<and>
   writes two_fee_lines (snd (updateFee two_fee_lines)) = [PostChangeLine 1 0] \<and>
   store (snd (updateFee two_fee_lines)) = [fee_line2 7] \<and>
   writes ((snd (updateFee two_fee_lines))\<lparr>reads := [], net := []\<rparr>)
     (snd (updateFee ((snd (updateFee two_fee_lines))\<lparr>reads := [], net := []\<rparr>)))
     = [PostChangeLine 1 0]"
proof -
  have f: "distinct (map key (store two_fee_lines))"
    "getSubtotalWithoutFee (store two_fee_lines) = 0"
    "False \<notin> set (reads two_fee_lines)" "next_answer two_fee_lines = Ok"
    "next_read two_fee_lines" "second_read two_fee_lines"
    "findFeeLineItem (store two_fee_lines) = Some (fee_line 35)"
    "feeLineIndex (store two_fee_lines) = 1"
    by (simp_all add: two_fee_lines_def world0_def fee_line_def fee_line2_def
          getSubtotalWithoutFee_def next_answer_def next_read_def second_read_def
          findFeeLineItem_def feeLineIndex_def)
  have w1: "writes two_fee_lines (snd (updateFee two_fee_lines)) = [PostChangeLine 1 0]"
    using updateFee_decides [OF f(3)] by (simp add: f)
  have s1: "store (snd (updateFee two_fee_lines)) = [fee_line2 7]"
    by (simp add: updateFee_store f) (simp add: store_apply_def two_fee_lines_def world0_def)
  let ?v = "(snd (updateFee two_fee_lines))\<lparr>reads := [], net := []\<rparr>"
  have g: "False \<notin> set (reads ?v)" by simp
  have sv: "store ?v = [fee_line2 7]" using s1 by simp
  have h: "findFeeLineItem (store ?v) = Some (fee_line2 7)" "feeLineIndex (store ?v) = 1"
    "getSubtotalWithoutFee (store ?v) = 0"
    unfolding sv
    by (simp_all add: fee_line2_def findFeeLineItem_def feeLineIndex_def
          getSubtotalWithoutFee_def)
  have w2: "writes ?v (snd (updateFee ?v)) = [PostChangeLine 1 0]"
    using updateFee_decides [OF g] by (simp only: h option.case) simp
  show ?thesis using f w1 s1 w2 by simp
qed

subsection \<open>At most one fee line\<close>

lemma store_remove_le:
  "findFeeLineItem items = Some f \<Longrightarrow>
   fee_count (store_apply (PostChangeLine (feeLineIndex items) 0) items) \<le> fee_count items"
  using store_remove [of items f] by simp

lemma store_add_le:
  "findFeeLineItem items = None \<Longrightarrow> fee_count (store_apply (PostAdd q) items) \<le> 1"
  using find_fee_None [of items]
  by (simp add: store_apply_def fee_count_def is_fee_def)

lemma updateFee_fee_count:
  assumes "fee_count (store w) \<le> 1"
  shows "fee_count (store (snd (updateFee w))) \<le> 1"
proof (cases "findFeeLineItem (store w)")
  case None
  then show ?thesis using assms store_add_le [OF None]
    by (simp add: updateFee_store)
next
  case (Some f)
  then show ?thesis
    using assms store_remove_le [OF Some]
      store_set_fee_count [of "key f" "calculateFee (getSubtotalWithoutFee (store w))" "store w"]
    by (simp add: updateFee_store)
qed

text \<open>
  C5, as the code has it. When the cart that \<open>updateFee\<close> reads has a fee line whose
  quantity differs from the fee of the positive subtotal, the one mutation it issues is
  the change of that line's quantity, by the line's key; it issues no add. And one
  reconciliation pass run on its own (\<open>updateFee\<close>, the timer's callback, the alignment
  at start-up, each from its first statement to its last with nothing else in between)
  never leaves more than one fee line in a cart that had at most one, whatever the
  network does.
\<close>

theorem existing_fee_is_updated:
  "(findFeeLineItem (store w) = Some f \<and> getSubtotalWithoutFee (store w) \<noteq> 0 \<and>
    quantity f \<noteq> calculateFee (getSubtotalWithoutFee (store w)) \<and> next_read w \<longrightarrow>
      writes w (snd (updateFee w)) =
        [PostChangeKey (key f) (calculateFee (getSubtotalWithoutFee (store w)))]) \<and>
   (fee_count (store w) \<le> 1 \<longrightarrow>
      fee_count (store (snd (updateFee w))) \<le> 1 \<and>
      fee_count (store (recalcTask w)) \<le> 1 \<and>
      fee_count (store (initAlign w)) \<le> 1)"
proof (intro conjI impI)
  assume "findFeeLineItem (store w) = Some f \<and> getSubtotalWithoutFee (store w) \<noteq> 0 \<and>
    quantity f \<noteq> calculateFee (getSubtotalWithoutFee (store w)) \<and> next_read w"
  then show "writes w (snd (updateFee w)) =
        [PostChangeKey (key f) (calculateFee (getSubtotalWithoutFee (store w)))]"
    by (simp add: updateFee_writes)
next
  assume c: "fee_count (store w) \<le> 1"
  then show "fee_count (store (snd (updateFee w))) \<le> 1" by (rule updateFee_fee_count)
  have c': "fee_count (store (snd (getCart w))) \<le> 1" using c by (simp add: getCart_frame)
  show "fee_count (store (recalcTask w)) \<le> 1"
    using c updateFee_fee_count [OF c'] by (simp add: recalcTask_store)
  show "fee_count (store (initAlign w)) \<le> 1"
    using c updateFee_fee_count [OF c'] by (simp add: initAlign_store)
qed

theorem existing_fee_is_updated_witness:
  "findFeeLineItem (store fee_out_of_step) = Some (fee_line 10) \<and>
   getSubtotalWithoutFee (store fee_out_of_step) \<noteq> 0 \<and>
   quantity (fee_line 10) \<noteq> calculateFee (getSubtotalWithoutFee (store fee_out_of_step)) \<and>
   next_read fee_out_of_step \<and>
   writes fee_out_of_step (snd (updateFee fee_out_of_step)) = [PostChangeKey ''fee:1'' 35] \<and>
   fee_count (store fee_out_of_step) \<le> 1 \<and>
   fee_count (store (snd (updateFee fee_out_of_step))) \<le> 1 \<and>
   fee_count (store (recalcTask fee_out_of_step)) \<le> 1"
  using existing_fee_is_updated [of fee_out_of_step "fee_line 10"]
  by (simp add: fee_out_of_step_facts calculateFee_1000 fee_line_def)

text \<open>
  The cuts of the overlapping runs are cuts of the same code: \<open>updateFee\<close> is its read
  followed by \<open>updateFee_after\<close>, and the alignment and the timer's callback are their
  read, the test, and \<open>updateFee\<close>.
\<close>

lemma updateFee_resumes:
  "updateFee w = updateFee_after (fst (getCart w)) (snd (getCart w))"
  by (simp add: updateFee_def updateFee_after_def getCart_eq)

lemma initAlign_resumes:
  "initAlign w =
     (if fee_or_wanted (fst (getCart w)) (snd (getCart w))
      then snd (updateFee (snd (getCart w))) else snd (getCart w))"
  by (simp add: initAlign_def fee_or_wanted_def getCart_eq Let_def)

lemma recalcTask_resumes:
  "recalcTask w =
     (if fee_or_wanted (fst (getCart w)) (snd (getCart w))
      then refreshCartUI (snd (updateFee (snd (getCart w)))) else snd (getCart w))"
  by (simp add: recalcTask_def fee_or_wanted_def getCart_eq Let_def)

lemma wants_fee_no_line_facts:
  "store wants_fee_no_line = [shirt]" "reads wants_fee_no_line = []"
  "net wants_fee_no_line = []" "requests wants_fee_no_line = []"
  "userWantsFee wants_fee_no_line" "cart_section wants_fee_no_line"
  by (simp_all add: wants_fee_no_line_def world0_def userWantsFee_def)

lemma shirt_facts:
  "findFeeLineItem [shirt] = None" "getSubtotalWithoutFee [shirt] = 1000"
  "fee_count [shirt] = 0"
  by (simp_all add: shirt_def findFeeLineItem_def getSubtotalWithoutFee_def
        final_line_price_def PAYPAL_FEE_SKU_def fee_count_def is_fee_def)

text \<open>
  C5 as the specification states it, at most one fee line at any time, fails. The page
  loads on a cart of one shirt with the fee wanted and no fee line yet. The two
  alignments that the two calls of \<open>init\<close> start both read the cart before either
  writes, both find no fee line, and both add one: two fee lines. The two listeners of
  a \<open>cart:updated\<close> event do the same. And the checkbox handler, which adds without
  looking at the cart's lines, puts a second fee line beside the one that is there.
\<close>

theorem one_fee_line_counterexample:
  "fee_count (store wants_fee_no_line) = 0 \<and>
   writes wants_fee_no_line (two_alignments wants_fee_no_line) = [PostAdd 35, PostAdd 35] \<and>
   fee_count (store (two_alignments wants_fee_no_line)) = 2 \<and>
   writes wants_fee_no_line (two_listeners wants_fee_no_line) = [PostAdd 35, PostAdd 35] \<and>
   fee_count (store (two_listeners wants_fee_no_line)) = 2 \<and>
   fee_count (store in_step) = 1 \<and>
   writes in_step (userToggle CbMain in_step) = [PostAdd 35] \<and>
   fee_count (store (userToggle CbMain in_step)) = 2"
proof -
  have a: "fee_count (store wants_fee_no_line) = 0"
    by (simp add: wants_fee_no_line_facts shirt_facts)
  have fc: "fee_count (store_apply (PostAdd 35) (store_apply (PostAdd 35) [shirt])) = 2"
    by (simp add: store_apply_def fee_count_def is_fee_def shirt_def PAYPAL_FEE_SKU_def)
  have b: "writes wants_fee_no_line (two_alignments wants_fee_no_line) = [PostAdd 35, PostAdd 35]"
    "store (two_alignments wants_fee_no_line) =
       store_apply (PostAdd 35) (store_apply (PostAdd 35) [shirt])"
    by (simp_all add: two_alignments_def writes_def issued_def getCart_eq fee_or_wanted_def
          updateFee_after_def shirt_facts calculateFee_1000 Let_def wants_fee_no_line_def
          world0_def next_read_def userWantsFee_def addFee_def fetch_eq next_answer_def
          refreshCartUI_def CheckboxHandler_init_def set_checked_def PAYPAL_FEE_VARIANT_ID_def
          is_mutation_def)
  have c: "writes wants_fee_no_line (two_listeners wants_fee_no_line) = [PostAdd 35, PostAdd 35]"
    "store (two_listeners wants_fee_no_line) =
       store_apply (PostAdd 35) (store_apply (PostAdd 35) [shirt])"
    by (simp_all add: two_listeners_def writes_def issued_def getCart_eq fee_or_wanted_def
          updateFee_after_def shirt_facts calculateFee_1000 Let_def wants_fee_no_line_def
          world0_def next_read_def userWantsFee_def addFee_def fetch_eq next_answer_def
          refreshCartUI_def CheckboxHandler_init_def set_checked_def PAYPAL_FEE_VARIANT_ID_def
          is_mutation_def)
  have fd: "fee_count (store in_step) = 1"
    "fee_count (store_apply (PostAdd 35) [shirt, fee_line 35]) = 2"
    by (simp_all add: in_step_def world0_def store_apply_def fee_count_def is_fee_def shirt_def
          fee_line_def PAYPAL_FEE_SKU_def)
  have g: "getSubtotalWithoutFee [shirt, fee_line 35] = 1000"
    using in_step_facts(2) by (simp add: in_step_def world0_def)
  have d: "writes in_step (userToggle CbMain in_step) = [PostAdd 35]"
    "store (userToggle CbMain in_step) = store_apply (PostAdd 35) [shirt, fee_line 35]"
    by (simp_all add: userToggle_def handleCheckboxChange_def in_step_def world0_def Let_def
          set_disabled_def showLoader_def setItem_def removeItem_def dispatchEvent_def
          getCart_eq next_read_def addFee_def fetch_eq next_answer_def reload_def
          refreshCartUI_def CheckboxHandler_init_def set_checked_def userWantsFee_def
          PAYPAL_FEE_VARIANT_ID_def g calculateFee_1000 writes_def issued_def is_mutation_def)
  show ?thesis using a b c d fc fd by simp
qed

subsection \<open>A failed read\<close>

text \<open>
  When the read of the cart fails, \<open>getCart\<close> returns \<open>null\<close>, and \<open>updateFee\<close>,
  \<open>removeFee\<close>, \<open>checkEmptyCart\<close>, the timer's callback, the \<open>cart:updated\<close> listener
  and the alignment at start-up do nothing more: the store, the stored preference and
  the checkboxes are as before, and the read is the only request issued, so the cart is
  not taken for an empty one. The same holds when the read inside \<open>removeFee\<close> is the
  one that fails. The checkbox handler issues no mutation either; what it does to the
  stored preference comes next.
\<close>

theorem failed_read_is_noop:
  "(\<not> next_read w \<longrightarrow>
      fst (getCart w) = None \<and>
      only_read w (snd (updateFee w)) \<and>
      only_read w (snd (removeFee w)) \<and>
      only_read w (checkEmptyCart w) \<and>
      only_read w (recalcTask w) \<and>
      only_read w (initAlign w) \<and>
      store (cartUpdatedListener w) = store w \<and>
      session (cartUpdatedListener w) = session w \<and>
      boxes (cartUpdatedListener w) = boxes w \<and>
      issued w (cartUpdatedListener w) = [GetCart] \<and>
      writes w (handleCheckboxChange t w) = [] \<and>
      store (handleCheckboxChange t w) = store w) \<and>
   (next_read w \<and> getSubtotalWithoutFee (store w) = 0 \<and> \<not> second_read w \<longrightarrow>
      issued w (snd (updateFee w)) = [GetCart, GetCart] \<and>
      store (snd (updateFee w)) = store w \<and>
      session (snd (updateFee w)) = session w)"
proof (intro conjI impI)
  assume "next_read w \<and> getSubtotalWithoutFee (store w) = 0 \<and> \<not> second_read w"
  then show "issued w (snd (updateFee w)) = [GetCart, GetCart]"
    and "store (snd (updateFee w)) = store w"
    and "session (snd (updateFee w)) = session w"
    using updateFee_zero [of w]
    by (simp_all add: issued_def updateFee_store updateFee_frame)
qed (simp_all add: only_read_def issued_def writes_def getCart_eq updateFee_def removeFee_def
        checkEmptyCart_def recalcTask_def initAlign_def cartUpdatedListener_def
        handleCheckboxChange_def revertCheckbox_def Let_def set_checked_def set_disabled_def
        showLoader_def hideLoader_def alert_def dispatchEvent_def setItem_def removeItem_def
        reload_def next_read_def
        split: option.splits)

theorem failed_read_is_noop_witness:
  "\<not> next_read cart_unreachable \<and>
   fst (getCart cart_unreachable) = None \<and>
   store (snd (updateFee cart_unreachable)) = [shirt, fee_line 10] \<and>
   userWantsFee (checkEmptyCart cart_unreachable) \<and>
   requests (recalcTask cart_unreachable) = [GetCart] \<and>
   next_read second_read_fails \<and> getSubtotalWithoutFee (store second_read_fails) = 0 \<and>
   \<not> second_read second_read_fails \<and>
   store (snd (updateFee second_read_fails)) = [fee_line 35]"
proof -
  have h: "\<not> next_read cart_unreachable"
    by (simp add: cart_unreachable_def world0_def next_read_def)
  have s: "store cart_unreachable = [shirt, fee_line 10]"
    "requests cart_unreachable = []" "userWantsFee cart_unreachable"
    by (simp_all add: cart_unreachable_def world0_def userWantsFee_def)
  have h2: "next_read second_read_fails" "\<not> second_read second_read_fails"
    "getSubtotalWithoutFee (store second_read_fails) = 0"
    "store second_read_fails = [fee_line 35]"
    by (simp_all add: second_read_fails_def cart_only_fee_def world0_def next_read_def
          second_read_def getSubtotalWithoutFee_def fee_line_def)
  show ?thesis
    using failed_read_is_noop [of cart_unreachable] failed_read_is_noop [of second_read_fails]
      h s h2
    by (simp add: only_read_def issued_def userWantsFee_def)
qed

text \<open>
  C6. The pipeline of the checkbox does not leave the stored preference as it was when
  the read of the cart fails, as the other callers of \<open>getCart\<close> do. The fee line is
  in the cart, the user wants the fee, and the main checkbox is checked.
  The user unchecks it while the cart cannot be read: the handler removes the stored
  preference first, \<open>removeFee\<close> reads \<open>null\<close> and returns \<open>false\<close>, which the handler
  does not look at, and the page reloads. The read was the only request, the fee line
  is still in the cart, and the preference that was \<open>true\<close> is gone; no alert is shown,
  and the box is left unchecked and disabled. The \<open>catch\<close> block of the handler, which
  would store the preference again, does not run.
\<close>

theorem uncheck_on_failed_read:
  "\<not> next_read uncheck_unreachable \<and>
   userWantsFee uncheck_unreachable \<and>
   boxes uncheck_unreachable CbMain = Some \<lparr>checked = True, disabled = False\<rparr> \<and>
   findFeeLineItem (store uncheck_unreachable) = Some (fee_line 35) \<and>
   issued uncheck_unreachable (userToggle CbMain uncheck_unreachable) = [GetCart] \<and>
   store (userToggle CbMain uncheck_unreachable) = store uncheck_unreachable \<and>
   session (userToggle CbMain uncheck_unreachable) SESSION_KEY_ADDED = None \<and>
   \<not> userWantsFee (userToggle CbMain uncheck_unreachable) \<and>
   session (userToggle CbMain uncheck_unreachable) \<noteq> session uncheck_unreachable \<and>
   boxes (userToggle CbMain uncheck_unreachable) CbMain =
     Some \<lparr>checked = False, disabled = True\<rparr> \<and>
   alerts (userToggle CbMain uncheck_unreachable) = [] \<and>
   reloads (userToggle CbMain uncheck_unreachable) = 1"
proof -
  have a: "\<not> next_read uncheck_unreachable" "userWantsFee uncheck_unreachable"
    "boxes uncheck_unreachable CbMain = Some \<lparr>checked = True, disabled = False\<rparr>"
    "findFeeLineItem (store uncheck_unreachable) = Some (fee_line 35)"
    "session uncheck_unreachable SESSION_KEY_ADDED = Some ''true''"
    using in_step_facts(1)
    by (simp_all add: uncheck_unreachable_def in_step_def world0_def next_read_def
          userWantsFee_def)
  have b: "issued uncheck_unreachable (userToggle CbMain uncheck_unreachable) = [GetCart]"
    "store (userToggle CbMain uncheck_unreachable) = store uncheck_unreachable"
    "session (userToggle CbMain uncheck_unreachable) SESSION_KEY_ADDED = None"
    "boxes (userToggle CbMain uncheck_unreachable) CbMain =
       Some \<lparr>checked = False, disabled = True\<rparr>"
    "alerts (userToggle CbMain uncheck_unreachable) = []"
    "reloads (userToggle CbMain uncheck_unreachable) = 1"
    by (simp_all add: userToggle_def handleCheckboxChange_def uncheck_unreachable_def
          world0_def Let_def set_disabled_def showLoader_def removeItem_def
          dispatchEvent_def removeFee_def getCart_eq next_read_def reload_def issued_def)
  have c: "session (userToggle CbMain uncheck_unreachable) \<noteq> session uncheck_unreachable"
    using a(5) b(3) by (metis option.distinct(1))
  show ?thesis using a b c by (simp add: userWantsFee_def)
qed

subsection \<open>The debounce timer\<close>

lemma scheduleRecalc_eq:
  assumes "pending_is_tracked p"
  shows "scheduleRecalc p =
           p\<lparr>timers := [(next_timer p, clock p + 600)],
             next_timer := next_timer p + 1,
             recalcTimer := Some (next_timer p)\<rparr>"
proof (cases "timers p")
  case Nil
  then show ?thesis
    by (cases "recalcTimer p")
       (simp_all add: scheduleRecalc_def clearTimeout_def setTimeout_def)
next
  case (Cons tm rest)
  with assms have "rest = []" and "recalcTimer p = Some (fst tm)"
    by (simp_all add: pending_is_tracked_def split: list.splits)
  with Cons show ?thesis
    by (simp add: scheduleRecalc_def clearTimeout_def setTimeout_def)
qed

lemma scheduleRecalc_tracked:
  "pending_is_tracked p \<Longrightarrow> pending_is_tracked (scheduleRecalc p)"
  by (simp add: scheduleRecalc_eq) (simp add: pending_is_tracked_def)

lemma scheduleRecalc_many:
  assumes "pending_is_tracked p"
  shows "(scheduleRecalc ^^ Suc n) p =
           p\<lparr>timers := [(next_timer p + n, clock p + 600)],
             next_timer := next_timer p + Suc n,
             recalcTimer := Some (next_timer p + n)\<rparr>"
proof (induction n)
  case 0
  then show ?case using assms by (simp add: scheduleRecalc_eq)
next
  case (Suc n)
  have ih: "scheduleRecalc ((scheduleRecalc ^^ n) p) =
           p\<lparr>timers := [(next_timer p + n, clock p + 600)],
             next_timer := next_timer p + Suc n,
             recalcTimer := Some (next_timer p + n)\<rparr>"
    using Suc by simp
  have t: "pending_is_tracked (scheduleRecalc ((scheduleRecalc ^^ n) p))"
    by (simp only: ih) (simp add: pending_is_tracked_def)
  have "(scheduleRecalc ^^ Suc (Suc n)) p =
          scheduleRecalc (scheduleRecalc ((scheduleRecalc ^^ n) p))"
    by simp
  also have "\<dots> = p\<lparr>timers := [(next_timer p + Suc n, clock p + 600)],
             next_timer := next_timer p + Suc (Suc n),
             recalcTimer := Some (next_timer p + Suc n)\<rparr>"
    by (subst scheduleRecalc_eq [OF t]) (simp add: ih)
  finally show ?case .
qed

lemma advance_not_due:
  "\<forall>tm \<in> set (timers p). t < snd tm \<Longrightarrow> advance t p = p\<lparr>clock := max (clock p) t\<rparr>"
proof -
  assume "\<forall>tm \<in> set (timers p). t < snd tm"
  then have "filter (\<lambda>tm. snd tm \<le> t) (timers p) = []"
    by (auto simp: filter_empty_conv)
  then show ?thesis by (simp add: advance_def)
qed

lemma advance_due:
  "timers p = [tm] \<Longrightarrow> snd tm \<le> t \<Longrightarrow>
   advance t p =
     p\<lparr>timers := [], clock := max (max (clock p) (snd tm)) t,
       passes := passes p @ [max (clock p) (snd tm)],
       env := recalcTask (env p)\<rparr>"
  by (simp add: advance_def fire_def)

text \<open>
  The state after a quantity event at time \<open>u\<close> of a burst that started in \<open>p\<close>: the
  clock shows \<open>u\<close>, one timeout is pending, due at \<open>u + 600\<close>, and no pass has run.
\<close>

lemma quantityEvent_first:
  assumes "timers p = []" and "0 < init_runs (env p)" and "clock p \<le> t"
  shows "clock (quantityEvent t p) = t \<and> map snd (timers (quantityEvent t p)) = [t + 600] \<and>
         pending_is_tracked (quantityEvent t p) \<and> passes (quantityEvent t p) = passes p \<and>
         env (quantityEvent t p) = env p"
proof -
  have a: "advance t p = p\<lparr>clock := t\<rparr>"
    using assms(1,3) by (simp add: advance_not_due max_def)
  have tr: "pending_is_tracked (p\<lparr>clock := t\<rparr>)"
    using assms(1) by (simp add: pending_is_tracked_def)
  obtain n where n: "init_runs (env p) = Suc n"
    using assms(2) by (cases "init_runs (env p)") simp_all
  show ?thesis
    by (simp add: quantityEvent_def a n scheduleRecalc_many [OF tr] del: funpow.simps)
       (simp add: pending_is_tracked_def)
qed

lemma quantityEvent_next:
  assumes "clock q = u" and "map snd (timers q) = [u + 600]" and "pending_is_tracked q"
    and "0 < init_runs (env q)" and "u \<le> v" and "v < u + 600"
  shows "clock (quantityEvent v q) = v \<and> map snd (timers (quantityEvent v q)) = [v + 600] \<and>
         pending_is_tracked (quantityEvent v q) \<and> passes (quantityEvent v q) = passes q \<and>
         env (quantityEvent v q) = env q"
proof -
  obtain tm where tm: "timers q = [tm]" "snd tm = u + 600"
    using assms(2) by (cases "timers q") auto
  have a: "advance v q = q\<lparr>clock := v\<rparr>"
    using tm assms(1,5,6) by (simp add: advance_not_due max_def)
  have tr: "pending_is_tracked (q\<lparr>clock := v\<rparr>)"
    using assms(3) by (simp add: pending_is_tracked_def split: list.splits)
  obtain n where n: "init_runs (env q) = Suc n"
    using assms(4) by (cases "init_runs (env q)") simp_all
  show ?thesis
    by (simp add: quantityEvent_def a n scheduleRecalc_many [OF tr] del: funpow.simps)
       (simp add: pending_is_tracked_def)
qed

lemma burst_rest:
  assumes "clock q = u" and "map snd (timers q) = [u + 600]" and "pending_is_tracked q"
    and "0 < init_runs (env q)" and "in_window u ts"
  shows "clock (burst ts q) = last (u # ts) \<and>
         map snd (timers (burst ts q)) = [last (u # ts) + 600] \<and>
         pending_is_tracked (burst ts q) \<and> passes (burst ts q) = passes q \<and>
         env (burst ts q) = env q"
  using assms
proof (induction ts arbitrary: q u)
  case Nil
  then show ?case by (simp add: burst_def)
next
  case (Cons v ts)
  from Cons.prems have w: "u \<le> v" "v < u + 600" "in_window v ts" by simp_all
  note st = quantityEvent_next [OF Cons.prems(1-4) w(1,2)]
  have "0 < init_runs (env (quantityEvent v q))" using st Cons.prems(4) by simp
  from Cons.IH [of "quantityEvent v q" v, OF _ _ _ this w(3)] st
  show ?case by (simp add: burst_def)
qed

lemma in_window_take: "in_window u ts \<Longrightarrow> in_window u (take k ts)"
proof (induction ts arbitrary: u k)
  case Nil
  then show ?case by simp
next
  case (Cons v ts)
  then show ?case by (cases k) simp_all
qed

lemma burst_all:
  assumes "timers p = []" and "0 < init_runs (env p)" and "clock p \<le> t" and "in_window t ts"
  shows "clock (burst (t # ts) p) = last (t # ts) \<and>
         map snd (timers (burst (t # ts) p)) = [last (t # ts) + 600] \<and>
         pending_is_tracked (burst (t # ts) p) \<and> passes (burst (t # ts) p) = passes p \<and>
         env (burst (t # ts) p) = env p"
proof -
  note f = quantityEvent_first [OF assms(1-3)]
  have i: "0 < init_runs (env (quantityEvent t p))" using f assms(2) by simp
  have b: "burst (t # ts) p = burst ts (quantityEvent t p)" by (simp add: burst_def)
  from burst_rest [of "quantityEvent t p" t ts, OF _ _ _ i assms(4)] f
  show ?thesis by (simp add: b)
qed

text \<open>
  C7. A burst of quantity events starts at time \<open>t\<close> on a page with no pending timeout
  and at least one registration of the listeners; each later event comes less than
  600 ms after the one before. Then after every prefix of the burst at most one timeout
  is pending; after the whole burst exactly one is pending, due 600 ms after the last
  event, every earlier one having been cancelled; no pass has run during the burst; and
  once the clock has reached that due time, exactly one pass has run, at that time,
  on the state the page had then, and nothing is pending any more.
\<close>

theorem debounce_collapses_burst:
  assumes "timers p = []" and "0 < init_runs (env p)" and "clock p \<le> t" and "in_window t ts"
  shows "(\<forall>k. length (timers (burst (take k (t # ts)) p)) \<le> 1) \<and>
         map snd (timers (burst (t # ts) p)) = [last (t # ts) + 600] \<and>
         passes (burst (t # ts) p) = passes p \<and>
         (\<forall>T. last (t # ts) + 600 \<le> T \<longrightarrow>
            passes (advance T (burst (t # ts) p)) = passes p @ [last (t # ts) + 600] \<and>
            timers (advance T (burst (t # ts) p)) = [] \<and>
            env (advance T (burst (t # ts) p)) = recalcTask (env (burst (t # ts) p)))"
proof (intro conjI allI impI)
  fix k
  show "length (timers (burst (take k (t # ts)) p)) \<le> 1"
  proof (cases k)
    case 0
    then show ?thesis using assms(1) by (simp add: burst_def)
  next
    case (Suc j)
    have "map snd (timers (burst (t # take j ts) p)) = [last (t # take j ts) + 600]"
      using burst_all [OF assms(1-3) in_window_take [OF assms(4)]] by blast
    then have "length (map snd (timers (burst (t # take j ts) p))) = 1" by simp
    then show ?thesis using Suc by simp
  qed
next
  note b = burst_all [OF assms]
  show "map snd (timers (burst (t # ts) p)) = [last (t # ts) + 600]"
    and "passes (burst (t # ts) p) = passes p"
    using b by blast+
  fix T
  assume T: "last (t # ts) + 600 \<le> T"
  obtain tm where tm: "timers (burst (t # ts) p) = [tm]" "snd tm = last (t # ts) + 600"
    using b by (cases "timers (burst (t # ts) p)") auto
  have due: "snd tm \<le> T" using tm T by simp
  have c: "clock (burst (t # ts) p) = last (t # ts)" using b by blast
  show "passes (advance T (burst (t # ts) p)) = passes p @ [last (t # ts) + 600]"
    using b tm c by (simp add: advance_due [OF tm(1) due] max_def)
  show "timers (advance T (burst (t # ts) p)) = []"
    by (simp add: advance_due [OF tm(1) due])
  show "env (advance T (burst (t # ts) p)) = recalcTask (env (burst (t # ts) p))"
    by (simp add: advance_due [OF tm(1) due])
qed

theorem debounce_collapses_burst_witness:
  "timers page0 = [] \<and> 0 < init_runs (env page0) \<and> clock page0 \<le> 100 \<and>
   in_window 100 [300, 800] \<and>
   length (timers (burst (take 2 [100, 300, 800]) page0)) \<le> 1 \<and>
   map snd (timers (burst [100, 300, 800] page0)) = [1400] \<and>
   passes (burst [100, 300, 800] page0) = [] \<and>
   passes (advance 1500 (burst [100, 300, 800] page0)) = [1400] \<and>
   timers (advance 1500 (burst [100, 300, 800] page0)) = []"
proof -
  have h: "timers page0 = []" "0 < init_runs (env page0)" "clock page0 \<le> 100"
    "in_window 100 [300, 800]" "passes page0 = []"
    by (simp_all add: page0_def world0_def)
  note th = debounce_collapses_burst [OF h(1-4)]
  from th have "length (timers (burst (take 2 [100, 300, 800]) page0)) \<le> 1"
    by blast
  moreover from th have "\<forall>T. 1400 \<le> T \<longrightarrow>
       passes (advance T (burst [100, 300, 800] page0)) = passes page0 @ [1400] \<and>
       timers (advance T (burst [100, 300, 800] page0)) = []"
    by simp
  then have "passes (advance 1500 (burst [100, 300, 800] page0)) = passes page0 @ [1400] \<and>
       timers (advance 1500 (burst [100, 300, 800] page0)) = []"
    by simp
  moreover from th have "map snd (timers (burst [100, 300, 800] page0)) = [1400] \<and>
       passes (burst [100, 300, 800] page0) = passes page0"
    by simp
  ultimately show ?thesis using h by simp
qed

subsection \<open>The checkbox handler\<close>

lemma add_refused_facts:
  "boxes add_refused CbMain = Some \<lparr>checked = False, disabled = False\<rparr>"
  "store add_refused = [shirt]"
  "\<not> userWantsFee add_refused"
  by (simp_all add: add_refused_def world0_def userWantsFee_def)

text \<open>
  C8. The handler does not revert when the store refuses the mutation. The user checks
  the main checkbox over a cart of one shirt; the store answers the add with an error
  status (out of stock). \<open>addFee\<close> catches the failure, shows its alert and returns
  \<open>false\<close>; the handler ignores the result and reloads the page. The fee is not in
  the cart, yet the checkbox stays checked (and disabled) and the preference stays
  stored. The \<open>catch\<close> block that would revert is reached only when the read of the
  cart fails.
\<close>

theorem checkbox_left_checked_on_failure:
  "store (userToggle CbMain add_refused) = [shirt] \<and>
   requests (userToggle CbMain add_refused) = [GetCart, PostAdd 35] \<and>
   boxes (userToggle CbMain add_refused) CbMain = Some \<lparr>checked = True, disabled = True\<rparr> \<and>
   userWantsFee (userToggle CbMain add_refused) \<and>
   alerts (userToggle CbMain add_refused) = [OutOfStock] \<and>
   reloads (userToggle CbMain add_refused) = 1"
  by (simp add: userToggle_def handleCheckboxChange_def add_refused_def world0_def Let_def
        set_disabled_def showLoader_def setItem_def removeItem_def dispatchEvent_def
        getCart_eq next_read_def addFee_def fetch_eq next_answer_def alert_def reload_def
        userWantsFee_def getSubtotalWithoutFee_def shirt_def final_line_price_def
        PAYPAL_FEE_SKU_def calculateFee_1000 SESSION_KEY_ADDED_def SESSION_KEY_DECLINED_def)

text \<open>
  The same for every state: when the box has been checked, the cart can be read and the
  store does not accept the add, the handler leaves the box checked and the preference
  stored, and reloads. When the read fails, it reverts.
\<close>

lemma handleCheckboxChange_no_revert:
  assumes "boxes w t = Some box" and "checked box" and "next_read w"
    and "next_answer w \<noteq> Ok" and "next_answer w \<noteq> Unparsable"
  shows "store (handleCheckboxChange t w) = store w \<and>
         boxes (handleCheckboxChange t w) t = Some (box\<lparr>disabled := True\<rparr>) \<and>
         userWantsFee (handleCheckboxChange t w) \<and>
         reloads (handleCheckboxChange t w) = reloads w + 1"
  using assms
  by (simp add: handleCheckboxChange_def Let_def set_disabled_def showLoader_def setItem_def
        removeItem_def dispatchEvent_def getCart_eq addFee_def fetch_eq next_answer_def
        next_read_def
        alert_def reload_def userWantsFee_def SESSION_KEY_ADDED_def SESSION_KEY_DECLINED_def
        split: outcome.splits errbody.splits bool.splits list.splits)

lemma handleCheckboxChange_reverts:
  assumes "boxes w t = Some box" and "checked box" and "\<not> next_read w"
  shows "store (handleCheckboxChange t w) = store w \<and>
         boxes (handleCheckboxChange t w) t = Some (box\<lparr>checked := False, disabled := False\<rparr>) \<and>
         \<not> userWantsFee (handleCheckboxChange t w) \<and>
         alerts (handleCheckboxChange t w) = alerts w @ [UpdateFailed] \<and>
         reloads (handleCheckboxChange t w) = reloads w"
  using assms
  by (simp add: handleCheckboxChange_def revertCheckbox_def Let_def set_disabled_def
        set_checked_def showLoader_def hideLoader_def setItem_def
        removeItem_def dispatchEvent_def getCart_eq alert_def userWantsFee_def next_read_def)

text \<open>
  Unchecking has the same gap: when \<open>removeFee\<close> cannot read the cart, or the store
  does not accept the removal, the handler reloads the page with the preference cleared
  and the fee line still in the cart.
\<close>

lemma handleCheckboxChange_uncheck_failure:
  assumes "boxes w t = Some box" and "\<not> checked box"
    and "\<not> next_read w \<or> (next_answer w \<noteq> Ok \<and> next_answer w \<noteq> Unparsable)"
  shows "store (handleCheckboxChange t w) = store w \<and>
         boxes (handleCheckboxChange t w) t = Some (box\<lparr>disabled := True\<rparr>) \<and>
         \<not> userWantsFee (handleCheckboxChange t w) \<and>
         reloads (handleCheckboxChange t w) = reloads w + 1"
  using assms
  by (auto simp add: handleCheckboxChange_def Let_def set_disabled_def showLoader_def
        removeItem_def dispatchEvent_def removeFee_store removeFee_frame removeFee_frame2
        reload_def userWantsFee_def next_read_def next_answer_def)

subsection \<open>The removal dialog\<close>

lemma closeConfirmModal_frame:
  "store (closeConfirmModal w) = store w"
  "session (closeConfirmModal w) = session w"
  "reads (closeConfirmModal w) = reads w"
  "net (closeConfirmModal w) = net w"
  "requests (closeConfirmModal w) = requests w"
  "boxes (closeConfirmModal w) = boxes w"
  "cart_section (closeConfirmModal w) = cart_section w"
  "reloads (closeConfirmModal w) = reloads w"
  "next_read (closeConfirmModal w) = next_read w"
  "next_answer (closeConfirmModal w) = next_answer w"
  "modal (closeConfirmModal w) \<noteq> Some True"
  by (simp_all add: closeConfirmModal_def next_read_def next_answer_def split: option.splits)

lemma refreshCartUI_modal: "modal (refreshCartUI w) = modal w"
  by (simp add: refreshCartUI_def fetch_eq CheckboxHandler_init_def set_checked_def
        reload_def Let_def split: outcome.splits)

lemma init_unchecks:
  "\<not> userWantsFee w \<Longrightarrow>
   not_checked CbMain (CheckboxHandler_init w) \<and> not_checked CbDrawer (CheckboxHandler_init w) \<and>
   not_checked CbProduct (CheckboxHandler_init w)"
  by (simp add: CheckboxHandler_init_def Let_def set_checked_def not_checked_def
        split: option.splits)

lemma init_keeps_unchecked:
  "\<not> userWantsFee w \<Longrightarrow> not_checked t w \<Longrightarrow> not_checked t (CheckboxHandler_init w)"
  by (cases t)
     (simp_all add: CheckboxHandler_init_def set_checked_def Let_def not_checked_def
        split: option.splits)

lemma refreshCartUI_cases:
  "refreshCartUI w =
     (if \<not> cart_section w then reload w
      else if next_answer w = Ok then CheckboxHandler_init (snd (fetch GetSection w))
      else reload (snd (fetch GetSection w)))"
  by (simp add: refreshCartUI_def fetch_eq split: outcome.splits)

lemma fetch_GetSection_frame:
  "boxes (snd (fetch GetSection w)) = boxes w"
  "session (snd (fetch GetSection w)) = session w"
  "reloads (snd (fetch GetSection w)) = reloads w"
  by (simp_all add: fetch_eq)

lemma refreshCartUI_keeps_unchecked:
  assumes "\<not> userWantsFee w" and "not_checked t w"
  shows "not_checked t (refreshCartUI w)"
proof -
  have a: "\<not> userWantsFee (snd (fetch GetSection w))" "not_checked t (snd (fetch GetSection w))"
    using assms by (simp_all add: userWantsFee_def not_checked_def fetch_GetSection_frame)
  have b: "not_checked t (reload w)" "not_checked t (reload (snd (fetch GetSection w)))"
    using assms(2) by (simp_all add: reload_def not_checked_def fetch_GetSection_frame)
  show ?thesis
    using init_keeps_unchecked [OF a] b by (simp add: refreshCartUI_cases)
qed

lemma refreshCartUI_fragment:
  assumes "cart_section w" and "next_answer w = Ok" and "\<not> userWantsFee w"
  shows "not_checked CbMain (refreshCartUI w) \<and> not_checked CbProduct (refreshCartUI w) \<and>
         reloads (refreshCartUI w) = reloads w"
proof -
  have a: "\<not> userWantsFee (snd (fetch GetSection w))"
    using assms(3) by (simp add: userWantsFee_def fetch_GetSection_frame)
  have "reloads (CheckboxHandler_init (snd (fetch GetSection w))) = reloads w"
    by (simp add: CheckboxHandler_init_def set_checked_def Let_def fetch_GetSection_frame)
  then show ?thesis
    using init_unchecks [OF a] assms(1,2) by (simp add: refreshCartUI_cases)
qed

lemma refreshCartUI_reload:
  "\<not> cart_section w \<Longrightarrow> reloads (refreshCartUI w) = reloads w + 1"
  by (simp add: refreshCartUI_def reload_def)

text \<open>The state in which \<open>confirmRemoval\<close> calls \<open>refreshCartUI\<close>.\<close>

lemma confirmRemoval_eq:
  "confirmRemoval w =
     refreshCartUI
       (removeItem SESSION_KEY_ADDED
          (set_checked CbDrawer False
             (set_checked CbPlain False (snd (removeFee (closeConfirmModal w))))))"
  by (simp add: confirmRemoval_def Let_def)

lemma confirmRemoval_session:
  "session (confirmRemoval w) = (session w)(SESSION_KEY_ADDED := None)"
  by (simp add: confirmRemoval_eq refreshCartUI_frame removeItem_def set_checked_def
        removeFee_frame closeConfirmModal_frame)

lemma confirmRemoval_store:
  "store (confirmRemoval w) = store (snd (removeFee w))"
  by (auto simp add: confirmRemoval_eq refreshCartUI_frame removeItem_def set_checked_def
        removeFee_store closeConfirmModal_frame)

lemma confirmRemoval_requests:
  "requests (confirmRemoval w) =
     requests (snd (removeFee w)) @ (if cart_section w then [GetSection] else [])"
  by (simp add: confirmRemoval_eq refreshCartUI_frame removeItem_def set_checked_def
        removeFee_requests removeFee_frame closeConfirmModal_frame)

lemma confirmRemoval_modal: "modal (confirmRemoval w) \<noteq> Some True"
  by (simp add: confirmRemoval_eq refreshCartUI_modal removeItem_def set_checked_def
        removeFee_frame2 closeConfirmModal_frame)

lemma confirmRemoval_boxes:
  "not_checked CbDrawer (confirmRemoval w) \<and> not_checked CbPlain (confirmRemoval w)"
  unfolding confirmRemoval_eq
  by (intro conjI refreshCartUI_keeps_unchecked)
     (simp_all add: removeItem_def set_checked_def userWantsFee_def not_checked_def
        split: option.splits)

lemma confirmRemoval_fragment:
  assumes "cart_section w" and "net w = []"
  shows "not_checked CbMain (confirmRemoval w) \<and> not_checked CbProduct (confirmRemoval w) \<and>
         reloads (confirmRemoval w) = reloads w"
proof -
  let ?v = "removeItem SESSION_KEY_ADDED
          (set_checked CbDrawer False
             (set_checked CbPlain False (snd (removeFee (closeConfirmModal w)))))"
  have n: "net (snd (removeFee (closeConfirmModal w))) = []"
    using assms(2) by (simp add: removeFee_frame2 closeConfirmModal_frame)
  have a: "cart_section ?v" "next_answer ?v = Ok" "\<not> userWantsFee ?v"
    "reloads ?v = reloads w"
    using assms(1) n
    by (simp_all add: removeItem_def set_checked_def removeFee_frame removeFee_frame2
          closeConfirmModal_frame next_answer_def userWantsFee_def)
  show ?thesis
    using refreshCartUI_fragment [OF a(1-3)] a(4) by (simp add: confirmRemoval_eq)
qed

lemma confirmRemoval_reload:
  assumes "\<not> cart_section w"
  shows "reloads (confirmRemoval w) = reloads w + 1"
  using assms
  by (simp add: confirmRemoval_eq refreshCartUI_reload removeItem_def set_checked_def
        removeFee_frame removeFee_frame2 closeConfirmModal_frame)

text \<open>
  C9. Cancelling, by the cancel button, by a click on the overlay or by the Escape key,
  closes the dialog and changes neither the cart nor the stored preference nor a
  checkbox, and issues no request. Confirming closes the dialog and clears the stored
  preference in every case. When the store answers, it removes a fee line (the request
  is the removal at the fee's position) and unchecks the drawer checkbox and the
  element \<open>paypal-fee-checkbox\<close>; on a page with a cart section it fetches the section and
  \<open>CheckboxHandler.init\<close> leaves the main and product checkboxes unchecked as well;
  on a page without one it reloads the page, and the \<open>CheckboxHandler.init\<close> of the
  start-up then finds no preference and leaves every checkbox unchecked.
\<close>

theorem removal_dialog:
  "closed_without_effect w (cancelClick w) \<and>
   closed_without_effect w (overlayClick w) \<and>
   closed_without_effect w (escapeKey w) \<and>
   session (confirmRemoval w) = (session w)(SESSION_KEY_ADDED := None) \<and>
   modal (confirmRemoval w) \<noteq> Some True \<and>
   not_checked CbDrawer (confirmRemoval w) \<and> not_checked CbPlain (confirmRemoval w) \<and>
   not_checked CbMain (CheckboxHandler_init (confirmRemoval w)) \<and>
   not_checked CbProduct (CheckboxHandler_init (confirmRemoval w)) \<and>
   (False \<notin> set (reads w) \<and> net w = [] \<longrightarrow>
      fee_count (store (confirmRemoval w)) = fee_count (store w) - 1 \<and>
      issued w (confirmRemoval w) =
        GetCart #
        (if findFeeLineItem (store w) \<noteq> None
         then [PostChangeLine (feeLineIndex (store w)) 0] else []) @
        (if cart_section w then [GetSection] else []) \<and>
      (if cart_section w
       then not_checked CbMain (confirmRemoval w) \<and> not_checked CbProduct (confirmRemoval w) \<and>
            reloads (confirmRemoval w) = reloads w
       else reloads (confirmRemoval w) = reloads w + 1))"
proof (intro conjI impI)
  show "closed_without_effect w (cancelClick w)"
    and "closed_without_effect w (overlayClick w)"
    and "closed_without_effect w (escapeKey w)"
    by (simp_all add: closed_without_effect_def cancelClick_def overlayClick_def escapeKey_def
          closeConfirmModal_def split: option.splits)
  show "session (confirmRemoval w) = (session w)(SESSION_KEY_ADDED := None)"
    by (rule confirmRemoval_session)
  show "modal (confirmRemoval w) \<noteq> Some True" by (rule confirmRemoval_modal)
  show "not_checked CbDrawer (confirmRemoval w)" and "not_checked CbPlain (confirmRemoval w)"
    using confirmRemoval_boxes by blast+
  have nw: "\<not> userWantsFee (confirmRemoval w)"
    by (simp add: userWantsFee_def confirmRemoval_session)
  show "not_checked CbMain (CheckboxHandler_init (confirmRemoval w))"
    and "not_checked CbProduct (CheckboxHandler_init (confirmRemoval w))"
    using init_unchecks [OF nw] by blast+
next
  assume a: "False \<notin> set (reads w) \<and> net w = []"
  then have r: "next_read w" and n: "next_answer w = Ok"
    by (simp_all add: reads_ok_next next_answer_def)
  show "fee_count (store (confirmRemoval w)) = fee_count (store w) - 1"
  proof (cases "findFeeLineItem (store w)")
    case None
    then show ?thesis using r find_fee_None [of "store w"]
      by (simp add: confirmRemoval_store removeFee_store)
  next
    case (Some f)
    then show ?thesis using r n store_remove [OF Some]
      by (simp add: confirmRemoval_store removeFee_store)
  qed
  show "issued w (confirmRemoval w) =
        GetCart #
        (if findFeeLineItem (store w) \<noteq> None
         then [PostChangeLine (feeLineIndex (store w)) 0] else []) @
        (if cart_section w then [GetSection] else [])"
    using r by (simp add: issued_def confirmRemoval_requests removeFee_requests)
  show "if cart_section w
       then not_checked CbMain (confirmRemoval w) \<and> not_checked CbProduct (confirmRemoval w) \<and>
            reloads (confirmRemoval w) = reloads w
       else reloads (confirmRemoval w) = reloads w + 1"
    using a confirmRemoval_fragment [of w] confirmRemoval_reload [of w] by simp
qed

lemma dialog_open_facts:
  "False \<notin> set (reads dialog_open)" "net dialog_open = []" "cart_section dialog_open"
  "fee_count (store dialog_open) = 1" "userWantsFee dialog_open"
  "findFeeLineItem (store dialog_open) = Some (fee_line 35)"
  "feeLineIndex (store dialog_open) = 2" "requests dialog_open = []"
  "modal dialog_open = Some True"
  by (simp_all add: dialog_open_def world0_def fee_count_def is_fee_def fee_line_def shirt_def
        PAYPAL_FEE_SKU_def userWantsFee_def findFeeLineItem_def feeLineIndex_def)

theorem removal_dialog_witness:
  "False \<notin> set (reads dialog_open) \<and> net dialog_open = [] \<and>
   userWantsFee dialog_open \<and> modal dialog_open = Some True \<and>
   store (escapeKey dialog_open) = store dialog_open \<and>
   \<not> userWantsFee (confirmRemoval dialog_open) \<and>
   fee_count (store (confirmRemoval dialog_open)) = 0 \<and>
   issued dialog_open (confirmRemoval dialog_open) = [GetCart, PostChangeLine 2 0, GetSection] \<and>
   not_checked CbMain (confirmRemoval dialog_open) \<and>
   not_checked CbDrawer (confirmRemoval dialog_open)"
proof -
  note th = removal_dialog [of dialog_open]
  from th have "session (confirmRemoval dialog_open) = (session dialog_open)(SESSION_KEY_ADDED := None)"
    by blast
  then have u: "\<not> userWantsFee (confirmRemoval dialog_open)"
    by (simp add: userWantsFee_def)
  show ?thesis
    using th u by (simp add: dialog_open_facts closed_without_effect_def)
qed

subsection \<open>The stored preference\<close>

lemma written_refl: "only_selected_written s s"
  by (simp add: only_selected_written_def)

lemma written_cases:
  "only_selected_written s (s(SESSION_KEY_ADDED := None))"
  "only_selected_written s (s(SESSION_KEY_ADDED \<mapsto> ''true''))"
  "only_selected_written s (s(SESSION_KEY_ADDED \<mapsto> ''true'', SESSION_KEY_DECLINED := None))"
  "only_selected_written s
     ((s(SESSION_KEY_ADDED \<mapsto> ''true'', SESSION_KEY_DECLINED := None))(SESSION_KEY_ADDED := None))"
  by (simp_all add: only_selected_written_def SESSION_KEY_ADDED_def SESSION_KEY_DECLINED_def)

lemma checkEmptyCart_session:
  "session (checkEmptyCart w) = session w \<or>
   session (checkEmptyCart w) = (session w)(SESSION_KEY_ADDED := None)"
  by (simp add: checkEmptyCart_def getCart_eq Let_def removeItem_def set_checked_def
        removeFee_frame)

lemma syncCheckboxState_session:
  "session (syncCheckboxState t w) = session w \<or>
   session (syncCheckboxState t w) = (session w)(SESSION_KEY_ADDED \<mapsto> ''true'')"
  by (simp add: syncCheckboxState_def getCart_eq Let_def setItem_def set_checked_def)

lemma handleProductCheckboxChange_session:
  "session (handleProductCheckboxChange w) = session w \<or>
   session (handleProductCheckboxChange w) = (session w)(SESSION_KEY_ADDED := None) \<or>
   session (handleProductCheckboxChange w) =
     (session w)(SESSION_KEY_ADDED \<mapsto> ''true'', SESSION_KEY_DECLINED := None)"
  by (simp add: handleProductCheckboxChange_def Let_def setItem_def removeItem_def
        set_checked_def split: option.splits)

lemma handleCheckboxChange_session:
  "session (handleCheckboxChange t w) = session w \<or>
   session (handleCheckboxChange t w) = (session w)(SESSION_KEY_ADDED := None) \<or>
   session (handleCheckboxChange t w) =
     (session w)(SESSION_KEY_ADDED \<mapsto> ''true'', SESSION_KEY_DECLINED := None) \<or>
   session (handleCheckboxChange t w) =
     ((session w)(SESSION_KEY_ADDED \<mapsto> ''true'', SESSION_KEY_DECLINED := None))
       (SESSION_KEY_ADDED := None)"
  by (simp add: handleCheckboxChange_def revertCheckbox_def Let_def setItem_def removeItem_def
        set_checked_def set_disabled_def showLoader_def hideLoader_def alert_def
        dispatchEvent_def reload_def getCart_eq addFee_frame removeFee_frame
        split: option.splits)

lemma userToggle_session:
  "only_selected_written (session w) (session (userToggle t w))"
proof (cases "boxes w t")
  case None
  then show ?thesis by (simp add: userToggle_def written_refl)
next
  case (Some box)
  let ?w1 = "w\<lparr>boxes := (boxes w)(t := Some (box\<lparr>checked := \<not> checked box\<rparr>))\<rparr>"
  have s: "session ?w1 = session w" by simp
  show ?thesis
  proof (cases "disabled box")
    case True
    then show ?thesis using Some by (simp add: userToggle_def written_refl)
  next
    case False
    show ?thesis
    proof (cases t)
      case CbMain
      then show ?thesis
        using Some False handleCheckboxChange_session [of CbMain ?w1] written_cases [of "session w"]
        by (auto simp add: userToggle_def Let_def written_refl)
    next
      case CbDrawer
      then show ?thesis
        using Some False handleCheckboxChange_session [of CbDrawer ?w1] written_cases [of "session w"]
        by (auto simp add: userToggle_def Let_def written_refl)
    next
      case CbProduct
      then show ?thesis
        using Some False handleProductCheckboxChange_session [of ?w1] written_cases [of "session w"]
        by (auto simp add: userToggle_def Let_def written_refl)
    next
      case CbPlain
      then show ?thesis using Some False by (simp add: userToggle_def Let_def written_refl)
    qed
  qed
qed

lemma ajaxAdd_session: "session (ajaxAdd product w) = session w"
  by (simp add: ajaxAdd_def fetch_eq getCart_eq addFee_frame dispatchEvent_def Let_def
        split: outcome.splits errbody.splits option.splits)

lemma dialog_session:
  "session (handleRemoveClick w) = session w"
  "session (cancelClick w) = session w"
  "session (overlayClick w) = session w"
  "session (escapeKey w) = session w"
  "session (createModal w) = session w"
  by (simp_all add: handleRemoveClick_def showConfirmModal_def cancelClick_def overlayClick_def
        escapeKey_def closeConfirmModal_def createModal_def split: option.splits)

lemma start_session:
  "session (syncCheckboxFromStorage w) = session w"
  "session (CheckboxHandler_init w) = session w"
  "session (cartUpdatedListener w) = session w"
  by (simp_all add: syncCheckboxFromStorage_def CheckboxHandler_init_def set_checked_def
        Let_def cartUpdatedListener_def recalcTask_session)

lemma fires_session:
  "session (env (foldl (\<lambda>q tm. fire tm q) p xs)) = session (env p)"
  by (induction xs arbitrary: p) (simp_all add: fire_def recalcTask_session)

lemma advance_session: "session (env (advance t p)) = session (env p)"
  by (simp add: advance_def Let_def fires_session)

lemma scheduleRecalc_env: "env (scheduleRecalc p) = env p"
  by (simp add: scheduleRecalc_def clearTimeout_def setTimeout_def Let_def split: option.splits)

lemma scheduleRecalc_many_env: "env ((scheduleRecalc ^^ n) p) = env p"
  by (induction n) (simp_all add: scheduleRecalc_env)

lemma quantityEvent_session: "session (env (quantityEvent t p)) = session (env p)"
  by (simp add: quantityEvent_def Let_def scheduleRecalc_many_env advance_session)

lemma step_session:
  "only_selected_written (session (env p)) (session (env (step e p)))"
proof (cases e)
  case EmptyCheck
  then show ?thesis
    using checkEmptyCart_session [of "env p"] written_cases [of "session (env p)"]
    by (auto simp add: on_env_def written_refl)
next
  case (Toggle t)
  then show ?thesis by (simp add: on_env_def userToggle_session)
next
  case (SyncState t)
  then show ?thesis
    using syncCheckboxState_session [of t "env p"] written_cases [of "session (env p)"]
    by (auto simp add: on_env_def written_refl)
next
  case ConfirmClick
  then show ?thesis
    using written_cases [of "session (env p)"]
    by (simp add: on_env_def confirmRemoval_session)
qed (simp_all add: on_env_def written_refl start_session dialog_session ajaxAdd_session
       initAlign_session quantityEvent_session advance_session addFee_frame removeFee_frame
       updateFee_frame refreshCartUI_frame)

lemma keys_differ: "SESSION_KEY_ADDED \<noteq> SESSION_KEY_DECLINED"
  by (simp add: SESSION_KEY_ADDED_def SESSION_KEY_DECLINED_def)

lemma written_pref_ok:
  assumes "only_selected_written (session w) (session w')" and "pref_ok w"
  shows "pref_ok w'"
proof -
  have a: "session w' SESSION_KEY_ADDED = session w SESSION_KEY_ADDED \<or>
           session w' SESSION_KEY_ADDED = None \<or>
           session w' SESSION_KEY_ADDED = Some ''true''"
    using assms(1) keys_differ unfolding only_selected_written_def by blast
  have d: "session w' SESSION_KEY_DECLINED = session w SESSION_KEY_DECLINED \<or>
           session w' SESSION_KEY_DECLINED = None"
    using assms(1) keys_differ unfolding only_selected_written_def by metis
  show ?thesis using a d assms(2) by (auto simp add: pref_ok_def)
qed

lemma run_pref_ok: "pref_ok (env p) \<Longrightarrow> pref_ok (env (run es p))"
proof (induction es arbitrary: p)
  case Nil
  then show ?case by (simp add: run_def)
next
  case (Cons e es)
  have "pref_ok (env (step e p))"
    using written_pref_ok [OF step_session Cons.prems] .
  from Cons.IH [OF this] show ?case by (simp add: run_def)
qed

text \<open>
  C10. No step of the script stores anything under the declined key, and the selected
  key is the only one it ever sets, to \<open>true\<close>: from one state to the next every key of
  the session storage keeps its value, except that the selected key may be removed or set
  to \<open>true\<close> and the declined key may be removed. So, starting without a declined key
  and with the selected key absent or \<open>true\<close>, every run of events ends that way: the
  preference has two values.
\<close>

theorem declined_never_written:
  "only_selected_written (session (env p)) (session (env (step e p))) \<and>
   (pref_ok (env p) \<longrightarrow> pref_ok (env (run es p)))"
  using step_session run_pref_ok by blast

theorem declined_never_written_witness:
  "pref_ok (env page0) \<and>
   pref_ok (env (run [Toggle CbMain, Quantity 100, Tick 900, ConfirmClick] page0)) \<and>
   session (env (run [Toggle CbMain] page0)) SESSION_KEY_ADDED = Some ''true'' \<and>
   session (env (run [Toggle CbMain] page0)) SESSION_KEY_DECLINED = None"
proof -
  have h: "pref_ok (env page0)"
    by (simp add: pref_ok_def page0_def world0_def)
  have a: "session (env (run [Toggle CbMain] page0)) SESSION_KEY_ADDED = Some ''true''"
    by (simp add: run_def on_env_def page0_def world0_def userToggle_def
          handleCheckboxChange_def Let_def set_disabled_def showLoader_def setItem_def
          removeItem_def dispatchEvent_def getCart_eq next_read_def addFee_frame reload_def
          SESSION_KEY_ADDED_def SESSION_KEY_DECLINED_def)
  from declined_never_written [of page0 "Toggle CbMain" "[Toggle CbMain]"] h
  have "pref_ok (env (run [Toggle CbMain] page0))" by blast
  then have b: "session (env (run [Toggle CbMain] page0)) SESSION_KEY_DECLINED = None"
    by (simp add: pref_ok_def)
  from declined_never_written
         [of page0 "Toggle CbMain" "[Toggle CbMain, Quantity 100, Tick 900, ConfirmClick]"] h
  have "pref_ok (env (run [Toggle CbMain, Quantity 100, Tick 900, ConfirmClick] page0))"
    by blast
  then show ?thesis using h a b by simp
qed

end
